theory Spec2Isabelle
  imports Complex_Main "HOL-Library.Sublist"
begin

section \<open>JavaScript values\<close>

text \<open>
  The program is \<^verbatim>\<open>src/App.tsx\<close>: a React component whose two asynchronous handlers,
  \<^verbatim>\<open>generateAIIdea\<close> and \<^verbatim>\<open>evaluateAIIdea\<close>, send a prompt to a text model, clean
  the answer, cut a JSON object out of it, parse it, check required fields and update
  the component state.

  A string is a list of code units; a \<^typ>\<open>char\<close> stands for a UTF-16 code unit
  below 256. A JavaScript number is a double: the finite values are rationals, and the
  remaining values are listed by name.
\<close>

datatype jsnum = Finite rat | NegZero | PosInfinity | NegInfinity | NaN

datatype json =
    JNull
  | JBool bool
  | JNum jsnum
  | JStr string
  | JArr "json list"
  | JObj "(string \<times> json) list"

text \<open>
  A property read \<^verbatim>\<open>obj[field]\<close> on a parsed object is \<^term>\<open>map_of obj field\<close>:
  \<^term>\<open>None\<close> is \<^verbatim>\<open>undefined\<close>. The field names the program reads are none of
  the names an object inherits from its prototype.

  \<^verbatim>\<open>!v\<close> holds for \<^verbatim>\<open>undefined\<close>, \<^verbatim>\<open>null\<close>, \<^verbatim>\<open>false\<close>, \<^verbatim>\<open>0\<close>, \<^verbatim>\<open>-0\<close>, \<^verbatim>\<open>NaN\<close> and
  the empty string.
\<close>

fun truthy :: "json option \<Rightarrow> bool" where
  "truthy None = False"
| "truthy (Some JNull) = False"
| "truthy (Some (JBool b)) = b"
| "truthy (Some (JNum n)) = (n \<noteq> Finite 0 \<and> n \<noteq> NegZero \<and> n \<noteq> NaN)"
| "truthy (Some (JStr s)) = (s \<noteq> [])"
| "truthy (Some (JArr xs)) = True"
| "truthy (Some (JObj kvs)) = True"

text \<open>\<^verbatim>\<open>v === undefined || v === null\<close>\<close>

definition nullish :: "json option \<Rightarrow> bool" where
  "nullish v = (v = None \<or> v = Some JNull)"

text \<open>
  A thrown value, as the handlers read it: \<^verbatim>\<open>err.message\<close>, \<^verbatim>\<open>err.name\<close>,
  \<^verbatim>\<open>err.status\<close>, \<^verbatim>\<open>err.statusText\<close>, \<^verbatim>\<open>err.stack\<close>; \<^term>\<open>None\<close> is \<^verbatim>\<open>undefined\<close>.
\<close>

record js_error =
  message :: "string option"
  name :: "string option"
  status :: "json option"
  statusText :: "json option"
  stack :: "string option"

text \<open>\<^verbatim>\<open>new Error(m)\<close>; the stack of an error the handlers throw themselves is never read.\<close>

definition Error :: "string \<Rightarrow> js_error" where
  "Error m = \<lparr>message = Some m, name = Some ''Error'', status = None, statusText = None,
     stack = None\<rparr>"

section \<open>String operations\<close>

definition nl :: string where
  "nl = [CHR 0x0A]"

text \<open>White space and line terminators of ECMAScript among the code units below 256.\<close>

definition is_space :: "char \<Rightarrow> bool" where
  "is_space c = (c = CHR 0x09 \<or> c = CHR 0x0A \<or> c = CHR 0x0B \<or> c = CHR 0x0C \<or> c = CHR 0x0D
     \<or> c = CHR 0x20 \<or> c = CHR 0xA0)"

text \<open>\<^verbatim>\<open>s.trim()\<close>\<close>

definition trim :: "string \<Rightarrow> string" where
  "trim s = rev (dropWhile is_space (rev (dropWhile is_space s)))"

text \<open>\<^verbatim>\<open>s.startsWith(p)\<close>\<close>

definition starts_with :: "string \<Rightarrow> string \<Rightarrow> bool" where
  "starts_with s p = (take (length p) s = p)"

text \<open>\<^verbatim>\<open>s.includes(p)\<close>\<close>

fun str_includes :: "string \<Rightarrow> string \<Rightarrow> bool" where
  "str_includes [] p = (p = [])"
| "str_includes (c # cs) p = (starts_with (c # cs) p \<or> str_includes cs p)"

text \<open>\<^verbatim>\<open>s.replace(p, '')\<close> for a string pattern: the leftmost occurrence is removed.\<close>

fun remove_first :: "string \<Rightarrow> string \<Rightarrow> string" where
  "remove_first p [] = []"
| "remove_first p (c # cs) =
     (if starts_with (c # cs) p then drop (length p) (c # cs) else c # remove_first p cs)"

text \<open>\<^verbatim>\<open>a || b\<close> on a string that may be undefined: the empty string is falsy.\<close>

definition or_else :: "string option \<Rightarrow> string \<Rightarrow> string" where
  "or_else a b = (case a of None \<Rightarrow> b | Some m \<Rightarrow> if m = [] then b else m)"

text \<open>\<^verbatim>\<open>Date.now().toString()\<close>: a natural number in decimal.\<close>

function toString_nat :: "nat \<Rightarrow> string" where
  "toString_nat n =
     (if n < 10 then [char_of (48 + n)]
      else toString_nat (n div 10) @ [char_of (48 + n mod 10)])"
  by pat_completeness auto
termination
  by (relation "measure (\<lambda>n. n)") auto

subsection \<open>The regular expressions of the handlers\<close>

text \<open>
  \<^verbatim>\<open>replace\<close> with a regular expression without the \<^verbatim>\<open>g\<close> flag rewrites the leftmost
  match only. The optional newline \<^verbatim>\<open>\n?\<close> is greedy.
\<close>

text \<open>The \<^verbatim>\<open>\n?\<close> that follows a literal: one newline is consumed when it is there.\<close>

fun opt_nl :: "string \<Rightarrow> string" where
  "opt_nl [] = []"
| "opt_nl (c # cs) = (if c = CHR 0x0A then cs else c # cs)"

text \<open>
  \<^verbatim>\<open>s.replace(/LIT\n?/, '')\<close>, for \<^verbatim>\<open>LIT\<close> one of \<^verbatim>\<open>```json\<close> and \<^verbatim>\<open>```\<close>: scan
  from the left for the first position where the literal stands.
\<close>

fun replace_open :: "string \<Rightarrow> string \<Rightarrow> string" where
  "replace_open lit [] = []"
| "replace_open lit (c # cs) =
     (if starts_with (c # cs) lit then opt_nl (drop (length lit) (c # cs))
      else c # replace_open lit cs)"

text \<open>
  \<^verbatim>\<open>s.replace(/\n?LIT$/, '')\<close>: without the \<^verbatim>\<open>m\<close> flag \<^verbatim>\<open>$\<close> is the end of the input,
  so a match at a position is the whole rest of the string: a newline and the literal, or
  the literal alone. The leftmost such position is rewritten.
\<close>

fun replace_close :: "string \<Rightarrow> string \<Rightarrow> string" where
  "replace_close lit [] = []"
| "replace_close lit (c # cs) =
     (if c # cs = CHR 0x0A # lit \<or> c # cs = lit then [] else c # replace_close lit cs)"

text \<open>Lines 137 to 144 (and 274 to 281): trim, then remove the markdown code fences.\<close>

definition clean_text :: "string \<Rightarrow> string" where
  "clean_text text =
     (let cleanedText = trim text in
      if starts_with cleanedText ''```json'' then
        replace_close ''```'' (replace_open ''```json'' cleanedText)
      else if starts_with cleanedText ''```'' then
        replace_close ''```'' (replace_open ''```'' cleanedText)
      else cleanedText)"

text \<open>
  \<^verbatim>\<open>[\s\S]*\}\<close> after an opening brace: the star takes everything and gives back until a
  closing brace stands at the end, so the result is the longest prefix that ends in the
  given character, if there is one.
\<close>

fun upto_last :: "char \<Rightarrow> string \<Rightarrow> string option" where
  "upto_last c [] = None"
| "upto_last c (x # xs) =
     (case upto_last c xs of
        Some m \<Rightarrow> Some (x # m)
      | None \<Rightarrow> if x = c then Some [x] else None)"

text \<open>
  \<^verbatim>\<open>s.match(/\{[\s\S]*\}/)\<close>: the match at the leftmost position where the expression
  matches, \<^term>\<open>None\<close> for \<^verbatim>\<open>null\<close>.
\<close>

fun match_json :: "string \<Rightarrow> string option" where
  "match_json [] = None"
| "match_json (x # xs) =
     (if x = CHR ''{'' then
        (case upto_last (CHR ''}'') xs of
           Some m \<Rightarrow> Some (x # m)
         | None \<Rightarrow> match_json xs)
      else match_json xs)"

section \<open>The environment of the handlers\<close>

text \<open>
  What the handlers call and do not define: the JSON functions and the number printer of
  the runtime, the clock, and the text model behind the vendor library.

  \<^item> \<open>json_parse\<close> is \<^verbatim>\<open>JSON.parse\<close> on a text that begins with an opening brace (the
    handlers call it on nothing else): it returns the properties of the parsed object,
    or throws.
  \<^item> \<open>json_stringify_pretty\<close> is \<^verbatim>\<open>JSON.stringify(obj, null, 2)\<close> on an object literal
    given by its properties, some of which may be undefined.
  \<^item> \<open>number_to_string\<close> is the string a number becomes in a template literal.
  \<^item> \<open>date_now\<close> is \<^verbatim>\<open>Date.now()\<close>.
  \<^item> \<open>generateContent\<close> is one request to the model: \<^verbatim>\<open>getGenerativeModel\<close>,
    \<^verbatim>\<open>generateContent\<close>, \<^verbatim>\<open>result.response\<close> and \<^verbatim>\<open>response.text()\<close> together; it
    returns the text or throws.
\<close>

record generation_config =
  temperature :: rat
  topK :: nat
  topP :: rat
  maxOutputTokens :: nat

record gateway_request =
  api_key :: string
  model :: string
  generationConfig :: "generation_config option"
  prompt :: string

record env =
  json_parse :: "string \<Rightarrow> js_error + (string \<times> json) list"
  json_stringify_pretty :: "(string \<times> json option) list \<Rightarrow> string"
  number_to_string :: "jsnum \<Rightarrow> string"
  date_now :: nat
  generateContent :: "gateway_request \<Rightarrow> js_error + string"

section \<open>Component state\<close>

text \<open>
  The interfaces \<^verbatim>\<open>Idea\<close> and \<^verbatim>\<open>Evaluation\<close>. TypeScript's field types are erased
  at run time and the handlers copy the parsed values unchecked, so a field holds any
  JSON value, or nothing (\<^verbatim>\<open>undefined\<close>).
\<close>

record Idea =
  idea_id :: string
  title :: "json option"
  description :: "json option"
  category :: "json option"
  targetMarket :: "json option"
  problem :: "json option"
  solution :: "json option"

record Evaluation =
  marketSize :: "json option"
  competition :: "json option"
  feasibility :: "json option"
  profitability :: "json option"
  innovation :: "json option"
  timeToMarket :: "json option"
  overallScore :: "json option"
  strengths :: "json option"
  weaknesses :: "json option"
  recommendations :: "json option"
  marketAnalysis :: "json option"
  riskAssessment :: "json option"

text \<open>The \<^verbatim>\<open>useState\<close> slots of \<^verbatim>\<open>App\<close>, lines 37 to 47.\<close>

record state =
  currentIdea :: "Idea option"
  evaluation :: "Evaluation option"
  showEvaluation :: bool
  apiKey :: string
  tempApiKey :: string
  showApiKeyInput :: bool
  isGenerating :: bool
  isEvaluating :: bool
  error :: string
  selectedCategory :: string
  debugInfo :: string

section \<open>The connection test\<close>

text \<open>
  The object \<^verbatim>\<open>testApiConnection\<close> returns: \<^verbatim>\<open>{success: true, message}\<close> or
  \<^verbatim>\<open>{success: false, message, details}\<close>.
\<close>

datatype connection_test =
    ConnOk string
  | ConnFailed string "(string \<times> json option) list"

definition model_name :: string where
  "model_name = ''gemini-1.5-flash''"

text \<open>\<^verbatim>\<open>error.stack?.split('\n')[0]\<close>\<close>

definition first_line :: "string \<Rightarrow> string" where
  "first_line s = takeWhile (\<lambda>c. c \<noteq> CHR 0x0A) s"

definition test_request :: "string \<Rightarrow> gateway_request" where
  "test_request testKey =
     \<lparr>api_key = trim testKey, model = model_name, generationConfig = None,
      prompt = ''Say '' @ [CHR 0x27] @ ''API connection successful'' @ [CHR 0x27]\<rparr>"

definition testApiConnection :: "env \<Rightarrow> string \<Rightarrow> connection_test" where
  "testApiConnection e testKey =
     (case generateContent e (test_request testKey) of
        Inr text \<Rightarrow> ConnOk text
      | Inl err \<Rightarrow>
          ConnFailed (or_else (message err) ''Unknown error'')
            [(''name'', map_option JStr (name err)),
             (''status'', status err),
             (''statusText'', statusText err),
             (''stack'', map_option (\<lambda>s. JStr (first_line s)) (stack err))])"

section \<open>Prompts\<close>

definition unlines :: "string list \<Rightarrow> string" where
  "unlines ls = concat (map (\<lambda>l. l @ nl) (butlast ls)) @ (if ls = [] then [] else last ls)"

fun join_comma :: "string list \<Rightarrow> string" where
  "join_comma [] = []"
| "join_comma [x] = x"
| "join_comma (x # y # r) = x @ '','' @ join_comma (y # r)"

text \<open>The string a JSON value becomes in a template literal.\<close>

fun js_to_string :: "(jsnum \<Rightarrow> string) \<Rightarrow> json \<Rightarrow> string" where
  "js_to_string num JNull = ''null''"
| "js_to_string num (JBool b) = (if b then ''true'' else ''false'')"
| "js_to_string num (JNum n) = num n"
| "js_to_string num (JStr s) = s"
| "js_to_string num (JArr xs) =
     join_comma (map (\<lambda>x. if x = JNull then [] else js_to_string num x) xs)"
| "js_to_string num (JObj kvs) = ''[object Object]''"

definition template :: "env \<Rightarrow> json option \<Rightarrow> string" where
  "template e v = (case v of None \<Rightarrow> ''undefined'' | Some j \<Rightarrow> js_to_string (number_to_string e) j)"

definition idea_prompt :: "string \<Rightarrow> string" where \<open>
  idea_prompt selCategory =
    (let categoryPrompt =
           (if selCategory \<noteq> [] then ''in the '' @ selCategory @ '' category''
            else ''in any innovative category'')
     in unlines
       [''Generate a startup idea '' @ categoryPrompt @ ''. Respond with valid JSON only:'',
        [],
        ''{'',
        ''  "title": "Startup name",'',
        ''  "description": "Brief description",'',
        ''  "category": "'' @ or_else (Some selCategory) ''Innovation'' @ ''",'',
        ''  "targetMarket": "Target market",'',
        ''  "problem": "Problem solved",'',
        ''  "solution": "Solution provided"'',
        ''}''])\<close>

definition evaluation_prompt :: "env \<Rightarrow> Idea \<Rightarrow> string" where \<open>
  evaluation_prompt e idea =
    unlines
      [''Evaluate this startup idea comprehensively. Respond with valid JSON only:'',
       [],
       ''Startup Idea:'',
       ''- Title: '' @ template e (title idea),
       ''- Description: '' @ template e (description idea),
       ''- Category: '' @ template e (category idea),
       ''- Target Market: '' @ template e (targetMarket idea),
       ''- Problem: '' @ template e (problem idea),
       ''- Solution: '' @ template e (solution idea),
       [],
       ''Provide a detailed evaluation in this exact JSON format:'',
       [],
       ''{'',
       ''  "marketSize": 4,'',
       ''  "competition": 3,'',
       ''  "feasibility": 5,'',
       ''  "profitability": 4,'',
       ''  "innovation": 5,'',
       ''  "timeToMarket": 3,'',
       ''  "overallScore": 85,'',
       ''  "strengths": ["Unique value proposition", "Large addressable market", "Strong technical feasibility"],'',
       ''  "weaknesses": ["High competition", "Long development time", "Regulatory challenges"],'',
       ''  "recommendations": ["Focus on MVP development", "Conduct market research", "Build strategic partnerships"],'',
       ''  "marketAnalysis": "Detailed analysis of the market opportunity, size, and trends",'',
       ''  "riskAssessment": "Key risks and mitigation strategies"'',
       ''}'',
       [],
       ''Rate each criterion from 1-5 where:'',
       ''- marketSize: 1=Very Small, 5=Huge Market'',
       ''- competition: 1=No Competition, 5=Highly Competitive'',
       ''- feasibility: 1=Very Difficult, 5=Highly Feasible'',
       ''- profitability: 1=Low Profit, 5=High Profit Potential'',
       ''- innovation: 1=Not Innovative, 5=Highly Innovative'',
       ''- timeToMarket: 1=Very Long, 5=Very Quick'',
       [],
       ''Calculate overallScore as percentage (0-100) based on weighted average of all criteria.'']\<close>

section \<open>Parsing and validating the answer\<close>

definition requiredFields_idea :: "string list" where
  "requiredFields_idea =
     [''title'', ''description'', ''category'', ''targetMarket'', ''problem'', ''solution'']"

definition requiredFields_evaluation :: "string list" where
  "requiredFields_evaluation =
     [''marketSize'', ''competition'', ''feasibility'', ''profitability'', ''innovation'',
      ''timeToMarket'', ''overallScore'', ''strengths'', ''weaknesses'', ''recommendations'',
      ''marketAnalysis'', ''riskAssessment'']"

text \<open>
  Lines 156 to 160, the loop of \<^verbatim>\<open>generateAIIdea\<close>:
  \<^verbatim>\<open>if (!ideaData[field]) throw new Error(`Missing required field: ${field}`)\<close>.
\<close>

fun validate_idea_fields :: "string list \<Rightarrow> (string \<times> json) list \<Rightarrow> js_error + unit" where
  "validate_idea_fields [] ideaData = Inr ()"
| "validate_idea_fields (field # rest) ideaData =
     (if \<not> truthy (map_of ideaData field) then
        Inl (Error (''Missing required field: '' @ field))
      else validate_idea_fields rest ideaData)"

text \<open>
  Lines 293 to 297, the loop of \<^verbatim>\<open>evaluateAIIdea\<close>:
  \<^verbatim>\<open>if (evaluationData[field] === undefined || evaluationData[field] === null) throw ...\<close>.
\<close>

fun validate_evaluation_fields :: "string list \<Rightarrow> (string \<times> json) list \<Rightarrow> js_error + unit" where
  "validate_evaluation_fields [] evaluationData = Inr ()"
| "validate_evaluation_fields (field # rest) evaluationData =
     (if nullish (map_of evaluationData field) then
        Inl (Error (''Missing required evaluation field: '' @ field))
      else validate_evaluation_fields rest evaluationData)"

text \<open>
  Lines 137 to 160 of \<^verbatim>\<open>generateAIIdea\<close>, with the list of required fields as an
  argument: the value is the parsed object, or the thrown error.
\<close>

definition parse_idea_with :: "string list \<Rightarrow> env \<Rightarrow> string \<Rightarrow> js_error + (string \<times> json) list" where
  "parse_idea_with requiredFields e text =
     (let cleanedText = clean_text text in
      case match_json cleanedText of
        None \<Rightarrow> Inl (Error (''No valid JSON found in response: '' @ cleanedText))
      | Some jsonMatch \<Rightarrow>
          (case json_parse e jsonMatch of
             Inl err \<Rightarrow> Inl err
           | Inr ideaData \<Rightarrow>
               (case validate_idea_fields requiredFields ideaData of
                  Inl err \<Rightarrow> Inl err
                | Inr u \<Rightarrow> Inr ideaData)))"

definition parse_idea :: "env \<Rightarrow> string \<Rightarrow> js_error + (string \<times> json) list" where
  "parse_idea = parse_idea_with requiredFields_idea"

text \<open>Lines 274 to 297 of \<^verbatim>\<open>evaluateAIIdea\<close>.\<close>

definition parse_evaluation_with :: "string list \<Rightarrow> env \<Rightarrow> string \<Rightarrow> js_error + (string \<times> json) list" where
  "parse_evaluation_with requiredFields e text =
     (let cleanedText = clean_text text in
      case match_json cleanedText of
        None \<Rightarrow> Inl (Error (''No valid JSON found in evaluation response: '' @ cleanedText))
      | Some jsonMatch \<Rightarrow>
          (case json_parse e jsonMatch of
             Inl err \<Rightarrow> Inl err
           | Inr evaluationData \<Rightarrow>
               (case validate_evaluation_fields requiredFields evaluationData of
                  Inl err \<Rightarrow> Inl err
                | Inr u \<Rightarrow> Inr evaluationData)))"

definition parse_evaluation :: "env \<Rightarrow> string \<Rightarrow> js_error + (string \<times> json) list" where
  "parse_evaluation = parse_evaluation_with requiredFields_evaluation"

text \<open>Lines 162 to 170 and 299 to 312: the records built from the parsed object.\<close>

definition newIdea :: "env \<Rightarrow> (string \<times> json) list \<Rightarrow> Idea" where
  "newIdea e ideaData =
     \<lparr>idea_id = toString_nat (date_now e),
      title = map_of ideaData ''title'',
      description = map_of ideaData ''description'',
      category = map_of ideaData ''category'',
      targetMarket = map_of ideaData ''targetMarket'',
      problem = map_of ideaData ''problem'',
      solution = map_of ideaData ''solution''\<rparr>"

definition newEvaluation :: "(string \<times> json) list \<Rightarrow> Evaluation" where
  "newEvaluation evaluationData =
     \<lparr>marketSize = map_of evaluationData ''marketSize'',
      competition = map_of evaluationData ''competition'',
      feasibility = map_of evaluationData ''feasibility'',
      profitability = map_of evaluationData ''profitability'',
      innovation = map_of evaluationData ''innovation'',
      timeToMarket = map_of evaluationData ''timeToMarket'',
      overallScore = map_of evaluationData ''overallScore'',
      strengths = map_of evaluationData ''strengths'',
      weaknesses = map_of evaluationData ''weaknesses'',
      recommendations = map_of evaluationData ''recommendations'',
      marketAnalysis = map_of evaluationData ''marketAnalysis'',
      riskAssessment = map_of evaluationData ''riskAssessment''\<rparr>"

section \<open>The catch blocks\<close>

text \<open>\<^verbatim>\<open>err.message?.includes(p)\<close>: undefined, hence falsy, when there is no message.\<close>

definition message_includes :: "js_error \<Rightarrow> string \<Rightarrow> bool" where
  "message_includes err p = (case message err of None \<Rightarrow> False | Some m \<Rightarrow> str_includes m p)"

text \<open>The object both catch blocks hand to \<^verbatim>\<open>JSON.stringify(..., null, 2)\<close>.\<close>

definition error_details :: "js_error \<Rightarrow> (string \<times> json option) list" where
  "error_details err =
     [(''message'', map_option JStr (message err)),
      (''name'', map_option JStr (name err)),
      (''status'', status err),
      (''statusText'', statusText err)]"

text \<open>Lines 180 to 194.\<close>

definition generate_errorMessage :: "js_error \<Rightarrow> string" where
  "generate_errorMessage err =
     ''Failed to generate idea. '' @
     (if message_includes err ''API_KEY_INVALID'' then
        ''Invalid API key. Please check your Gemini API key.''
      else if message_includes err ''PERMISSION_DENIED'' then
        ''Permission denied. Please ensure your API key has the correct permissions.''
      else if message_includes err ''QUOTA_EXCEEDED'' then
        ''API quota exceeded. Please check your usage limits.''
      else if message_includes err ''Failed to fetch'' then
        ''Network error. Please check your internet connection.''
      else if message_includes err ''API Connection Failed'' then
        (case message err of
           None \<Rightarrow> []
         | Some m \<Rightarrow> remove_first ''API Connection Failed: '' m)
      else ''Error: '' @ or_else (message err) ''Unknown error occurred'')"

text \<open>Lines 177 to 202.\<close>

definition generate_catch :: "env \<Rightarrow> js_error \<Rightarrow> state \<Rightarrow> state" where
  "generate_catch e err s =
     s\<lparr>error := generate_errorMessage err,
       debugInfo := ''Error details: '' @ json_stringify_pretty e (error_details err)\<rparr>"

text \<open>Lines 321 to 333.\<close>

definition evaluate_errorMessage :: "js_error \<Rightarrow> string" where
  "evaluate_errorMessage err =
     ''Failed to evaluate idea. '' @
     (if message_includes err ''API_KEY_INVALID'' then
        ''Invalid API key. Please check your Gemini API key.''
      else if message_includes err ''PERMISSION_DENIED'' then
        ''Permission denied. Please ensure your API key has the correct permissions.''
      else if message_includes err ''QUOTA_EXCEEDED'' then
        ''API quota exceeded. Please check your usage limits.''
      else if message_includes err ''Failed to fetch'' then
        ''Network error. Please check your internet connection.''
      else ''Error: '' @ or_else (message err) ''Unknown error occurred'')"

text \<open>Lines 318 to 341.\<close>

definition evaluate_catch :: "env \<Rightarrow> js_error \<Rightarrow> state \<Rightarrow> state" where
  "evaluate_catch e err s =
     s\<lparr>error := evaluate_errorMessage err,
       debugInfo := ''Evaluation error details: '' @ json_stringify_pretty e (error_details err)\<rparr>"

section \<open>The handlers\<close>

text \<open>
  A handler runs from the state it was created in and sets slots one after the other; the
  model threads the state through the setters in program order and returns the last
  state together with the requests sent to the model, in order. The slots a handler reads
  (\<^verbatim>\<open>apiKey\<close>, \<^verbatim>\<open>selectedCategory\<close>, \<^verbatim>\<open>currentIdea\<close>) are read before it sets them.
\<close>

definition idea_config :: generation_config where
  "idea_config = \<lparr>temperature = 9 / 10, topK = 40, topP = 95 / 100, maxOutputTokens = 1024\<rparr>"

definition evaluation_config :: generation_config where
  "evaluation_config = \<lparr>temperature = 7 / 10, topK = 40, topP = 95 / 100, maxOutputTokens = 2048\<rparr>"

definition idea_request :: "state \<Rightarrow> gateway_request" where
  "idea_request s =
     \<lparr>api_key = trim (apiKey s), model = model_name, generationConfig = Some idea_config,
      prompt = idea_prompt (selectedCategory s)\<rparr>"

definition evaluation_request :: "env \<Rightarrow> state \<Rightarrow> Idea \<Rightarrow> gateway_request" where
  "evaluation_request e s idea =
     \<lparr>api_key = trim (apiKey s), model = model_name, generationConfig = Some evaluation_config,
      prompt = evaluation_prompt e idea\<rparr>"

text \<open>
  The try block of \<^verbatim>\<open>generateAIIdea\<close>, lines 93 to 176: the thrown error if any, the
  state when the block is left, and the requests sent.
\<close>

definition generate_try :: "env \<Rightarrow> state \<Rightarrow> (js_error + unit) \<times> state \<times> gateway_request list" where
  "generate_try e s =
     (let s1 = s\<lparr>debugInfo := ''Testing API connection...''\<rparr> in
      case testApiConnection e (apiKey s) of
        ConnFailed msg details \<Rightarrow>
          (Inl (Error (''API Connection Failed: '' @ msg)),
           s1\<lparr>debugInfo := ''Connection failed: '' @ json_stringify_pretty e details\<rparr>,
           [test_request (apiKey s)])
      | ConnOk msg \<Rightarrow>
          (let s2 = s1\<lparr>debugInfo := ''API connection successful, generating idea...''\<rparr>;
               s3 = s2\<lparr>debugInfo := ''Sending request to Gemini...''\<rparr>;
               calls = [test_request (apiKey s), idea_request s]
           in case generateContent e (idea_request s) of
                Inl err \<Rightarrow> (Inl err, s3, calls)
              | Inr text \<Rightarrow>
                  (let s4 = s3\<lparr>debugInfo := ''Received response: '' @ take 100 text @ ''...''\<rparr>
                   in case parse_idea e text of
                        Inl err \<Rightarrow> (Inl err, s4, calls)
                      | Inr ideaData \<Rightarrow>
                          (Inr (),
                           s4\<lparr>currentIdea := Some (newIdea e ideaData),
                              showEvaluation := False,
                              evaluation := None,
                              debugInfo := ''Idea generated successfully!''\<rparr>,
                           calls))))"

text \<open>Lines 89 to 91: the setters before the try block.\<close>

definition generate_begin :: "state \<Rightarrow> state" where
  "generate_begin s =
     s\<lparr>isGenerating := True, error := [], debugInfo := ''Starting API connection...''\<rparr>"

text \<open>
  \<^verbatim>\<open>generateAIIdea\<close>, lines 83 to 206: the guard, the setters, the try block, the catch
  block when the try block threw, and the finally block.
\<close>

definition generateAIIdea :: "env \<Rightarrow> state \<Rightarrow> state \<times> gateway_request list" where
  "generateAIIdea e s =
     (if trim (apiKey s) = [] then (s\<lparr>showApiKeyInput := True\<rparr>, [])
      else
        (case generate_try e (generate_begin s) of
           (Inr u, s2, calls) \<Rightarrow> (s2\<lparr>isGenerating := False\<rparr>, calls)
         | (Inl err, s2, calls) \<Rightarrow> ((generate_catch e err s2)\<lparr>isGenerating := False\<rparr>, calls)))"

text \<open>The try block of \<^verbatim>\<open>evaluateAIIdea\<close>, lines 217 to 317, for the current idea.\<close>

definition evaluate_try :: "env \<Rightarrow> Idea \<Rightarrow> state \<Rightarrow> (js_error + unit) \<times> state \<times> gateway_request list" where
  "evaluate_try e idea s =
     (let s1 = s\<lparr>debugInfo := ''Sending evaluation request to Gemini...''\<rparr>;
          calls = [evaluation_request e s idea]
      in case generateContent e (evaluation_request e s idea) of
           Inl err \<Rightarrow> (Inl err, s1, calls)
         | Inr text \<Rightarrow>
             (let s2 = s1\<lparr>debugInfo := ''Received evaluation response: '' @ take 100 text @ ''...''\<rparr>
              in case parse_evaluation e text of
                   Inl err \<Rightarrow> (Inl err, s2, calls)
                 | Inr evaluationData \<Rightarrow>
                     (Inr (),
                      s2\<lparr>evaluation := Some (newEvaluation evaluationData),
                         showEvaluation := True,
                         debugInfo := ''AI evaluation completed successfully!''\<rparr>,
                      calls)))"

text \<open>Lines 213 to 215: the setters before the try block.\<close>

definition evaluate_begin :: "state \<Rightarrow> state" where
  "evaluate_begin s =
     s\<lparr>isEvaluating := True, error := [], debugInfo := ''Starting AI evaluation...''\<rparr>"

text \<open>
  \<^verbatim>\<open>evaluateAIIdea\<close>, lines 208 to 345: the guard \<^verbatim>\<open>!currentIdea || !apiKey.trim()\<close>,
  the setters, the try block, the catch block when the try block threw, and the finally
  block.
\<close>

definition evaluateAIIdea :: "env \<Rightarrow> state \<Rightarrow> state \<times> gateway_request list" where
  "evaluateAIIdea e s =
     (case currentIdea s of
        None \<Rightarrow> (s, [])
      | Some idea \<Rightarrow>
          if trim (apiKey s) = [] then (s, [])
          else
            (case evaluate_try e idea (evaluate_begin s) of
               (Inr u, s2, calls) \<Rightarrow> (s2\<lparr>isEvaluating := False\<rparr>, calls)
             | (Inl err, s2, calls) \<Rightarrow>
                 ((evaluate_catch e err s2)\<lparr>isEvaluating := False\<rparr>, calls)))"

section \<open>The handlers between their awaits\<close>



text \<open>
  \<^verbatim>\<open>generateAIIdea\<close> awaits the connection test, at line 96, and then the request, at
  lines 130 and 131: \<open>generate_resume\<close> is what it does after the request (lines 132 to
  205), given what the request returned or threw.
\<close>

definition generate_resume :: "env \<Rightarrow> js_error + string \<Rightarrow> state \<Rightarrow> state" where
  "generate_resume e response s =
     (case response of
        Inl err \<Rightarrow> (generate_catch e err s)\<lparr>isGenerating := False\<rparr>
      | Inr text \<Rightarrow>
          (let s4 = s\<lparr>debugInfo := ''Received response: '' @ take 100 text @ ''...''\<rparr>
           in case parse_idea e text of
                Inl err \<Rightarrow> (generate_catch e err s4)\<lparr>isGenerating := False\<rparr>
              | Inr ideaData \<Rightarrow>
                  s4\<lparr>currentIdea := Some (newIdea e ideaData),
                     showEvaluation := False,
                     evaluation := None,
                     debugInfo := ''Idea generated successfully!'',
                     isGenerating := False\<rparr>))"

section \<open>What the component shows\<close>

text \<open>
  Three pieces of the rendered page. Lines 411 to 417: the status of the credential, a
  yellow badge that reads \<^verbatim>\<open>API Key Required\<close> when \<^verbatim>\<open>apiKey\<close> is the empty string and a
  green one that reads \<^verbatim>\<open>Gemini AI Connected\<close> otherwise. Lines 595 to 607: the error
  box, rendered when \<^verbatim>\<open>error\<close> is not empty. Line 720: the evaluation panel, rendered
  when \<^verbatim>\<open>showEvaluation && evaluation\<close>.
\<close>

definition apiKeyStatus :: "state \<Rightarrow> string" where
  "apiKeyStatus s = (if apiKey s \<noteq> [] then ''Gemini AI Connected'' else ''API Key Required'')"

definition errorBox :: "state \<Rightarrow> string option" where
  "errorBox s = (if error s \<noteq> [] then Some (error s) else None)"


section \<open>The credential\<close>

text \<open>
  \<^verbatim>\<open>saveApiKey\<close> and \<^verbatim>\<open>clearApiKey\<close>, lines 347 to 363, on the state and the entry
  \<^verbatim>\<open>gemini-api-key\<close> of the local storage (\<^term>\<open>None\<close> when there is none).
\<close>

definition saveApiKey :: "state \<times> string option \<Rightarrow> state \<times> string option" where
  "saveApiKey = (\<lambda>(s, stored).
     if trim (tempApiKey s) \<noteq> [] then
       (s\<lparr>apiKey := trim (tempApiKey s), showApiKeyInput := False, error := [], debugInfo := []\<rparr>,
        Some (trim (tempApiKey s)))
     else (s, stored))"

definition clearApiKey :: "state \<times> string option \<Rightarrow> state \<times> string option" where
  "clearApiKey = (\<lambda>(s, stored).
     (s\<lparr>apiKey := [], tempApiKey := [], error := [], debugInfo := []\<rparr>, None))"

section \<open>The fence step in the words of the specification\<close>

text \<open>
  The opening marker with the line break that ends its line is removed from the start of
  the text, and a closing marker that ends the text with the line break before it.
\<close>

definition strip_fence_pair :: "string \<Rightarrow> string \<Rightarrow> string" where
  "strip_fence_pair marker t =
     (let body = opt_nl (drop (length marker) t) in
      if suffix (nl @ ''```'') body then take (length body - 4) body
      else if suffix ''```'' body then take (length body - 3) body
      else body)"

definition strip_fences_spec :: "string \<Rightarrow> string" where
  "strip_fences_spec t =
     (if prefix ''```json'' t then strip_fence_pair ''```json'' t
      else if prefix ''```'' t then strip_fence_pair ''```'' t
      else t)"

section \<open>Outcome of a round trip\<close>

text \<open>
  What the try block of a run from a state ends with: nothing when the round trip
  succeeded, the thrown error when it failed.
\<close>

definition generate_outcome :: "env \<Rightarrow> state \<Rightarrow> js_error + unit" where
  "generate_outcome e s = fst (generate_try e (generate_begin s))"

definition evaluate_outcome :: "env \<Rightarrow> Idea \<Rightarrow> state \<Rightarrow> js_error + unit" where
  "evaluate_outcome e idea s = fst (evaluate_try e idea (evaluate_begin s))"

section \<open>Sample runs\<close>

text \<open>
  Concrete answers, objects, environments and states, on which the theorems below are
  instantiated. The sample environment tabulates the runtime on the texts that occur:
  each entry of \<open>sample_json_parse\<close> is what \<^verbatim>\<open>JSON.parse\<close> returns or throws on that
  text (the message is the one of V8 before version 11), and each entry of
  \<open>sample_json_stringify\<close> is what \<^verbatim>\<open>JSON.stringify\<close> returns on that object. The
  tables are applied to their entries only; elsewhere they hold a filler. A number
  literal beyond the range of a double parses to \<^verbatim>\<open>Infinity\<close>, and a number that is not
  finite is serialized as \<^verbatim>\<open>null\<close>.
\<close>

definition sample_idea_json :: string where \<open>
  sample_idea_json =
    ''{"title":"T","description":"D","category":"C","targetMarket":"M","problem":"P","solution":"S"}''\<close>

definition sample_idea_object :: "(string \<times> json) list" where
  "sample_idea_object =
     [(''title'', JStr ''T''), (''description'', JStr ''D''), (''category'', JStr ''C''),
      (''targetMarket'', JStr ''M''), (''problem'', JStr ''P''), (''solution'', JStr ''S'')]"

text \<open>The object in a fenced block.\<close>

definition sample_idea_text :: string where
  "sample_idea_text = ''```json'' @ nl @ sample_idea_json @ nl @ ''```''"

definition sample_evaluation_json :: string where \<open>
  sample_evaluation_json =
    ''{"marketSize":4,"competition":3,"feasibility":5,"profitability":4,"innovation":5,"timeToMarket":3,"overallScore":0,"strengths":["a"],"weaknesses":["b"],"recommendations":["c"],"marketAnalysis":"","riskAssessment":"r"}''\<close>

definition sample_evaluation_object :: "(string \<times> json) list" where
  "sample_evaluation_object =
     [(''marketSize'', JNum (Finite 4)), (''competition'', JNum (Finite 3)),
      (''feasibility'', JNum (Finite 5)), (''profitability'', JNum (Finite 4)),
      (''innovation'', JNum (Finite 5)), (''timeToMarket'', JNum (Finite 3)),
      (''overallScore'', JNum (Finite 0)), (''strengths'', JArr [JStr ''a'']),
      (''weaknesses'', JArr [JStr ''b'']), (''recommendations'', JArr [JStr ''c'']),
      (''marketAnalysis'', JStr []), (''riskAssessment'', JStr ''r'')]"

text \<open>The object between two sentences.\<close>

definition sample_evaluation_text :: string where
  "sample_evaluation_text =
     ''Here is the evaluation: '' @ sample_evaluation_json @ '' I hope it helps.''"

text \<open>An idea whose title is the empty string.\<close>

definition empty_title_object :: "(string \<times> json) list" where
  "empty_title_object =
     [(''title'', JStr []), (''description'', JStr ''D''), (''category'', JStr ''C''),
      (''targetMarket'', JStr ''M''), (''problem'', JStr ''P''), (''solution'', JStr ''S'')]"

text \<open>An idea whose title is a number literal too large for a double.\<close>

definition overflow_json :: string where \<open>
  overflow_json =
    ''{"title":1e999,"description":"D","category":"C","targetMarket":"M","problem":"P","solution":"S"}''\<close>

definition overflow_object :: "(string \<times> json) list" where
  "overflow_object =
     [(''title'', JNum PosInfinity), (''description'', JStr ''D''), (''category'', JStr ''C''),
      (''targetMarket'', JStr ''M''), (''problem'', JStr ''P''), (''solution'', JStr ''S'')]"

definition null_title_json :: string where \<open>
  null_title_json =
    ''{"title":null,"description":"D","category":"C","targetMarket":"M","problem":"P","solution":"S"}''\<close>

definition null_title_object :: "(string \<times> json) list" where
  "null_title_object =
     [(''title'', JNull), (''description'', JStr ''D''), (''category'', JStr ''C''),
      (''targetMarket'', JStr ''M''), (''problem'', JStr ''P''), (''solution'', JStr ''S'')]"

text \<open>A text that is not JSON: the example of the specification.\<close>

definition malformed_json :: string where
  "malformed_json = ''{a:1,}''"

definition SyntaxError :: "string \<Rightarrow> js_error" where
  "SyntaxError m = \<lparr>message = Some m, name = Some ''SyntaxError'', status = None,
     statusText = None, stack = Some (''SyntaxError: '' @ m)\<rparr>"

definition sample_json_parse :: "string \<Rightarrow> js_error + (string \<times> json) list" where
  "sample_json_parse s =
     (if s = sample_idea_json then Inr sample_idea_object
      else if s = sample_evaluation_json then Inr sample_evaluation_object
      else if s = overflow_json then Inr overflow_object
      else if s = null_title_json then Inr null_title_object
      else if s = malformed_json then
        Inl (SyntaxError ''Unexpected token a in JSON at position 1'')
      else Inl (SyntaxError ''Unexpected end of JSON input''))"

definition sample_json_stringify :: "(string \<times> json) list \<Rightarrow> string" where
  "sample_json_stringify obj =
     (if obj = sample_idea_object then sample_idea_json
      else if obj = sample_evaluation_object then sample_evaluation_json
      else if obj = overflow_object then null_title_json
      else if obj = null_title_object then null_title_json
      else ''{}'')"

text \<open>
  The indented form of an object whose defined properties are strings without characters
  to escape; the error details below are such objects.
\<close>

definition sample_stringify_pretty :: "(string \<times> json option) list \<Rightarrow> string" where \<open>
  sample_stringify_pretty props =
    unlines
      ([''{''] @
       (let ls = concat (map (\<lambda>(k, v). case v of
                     Some (JStr s) \<Rightarrow> [''  "'' @ k @ ''": "'' @ s @ ''"'']
                   | _ \<Rightarrow> []) props)
        in map (\<lambda>l. l @ '','') (butlast ls) @ (if ls = [] then [] else [last ls])) @
       [''}''])\<close>

text \<open>
  Numbers as a template literal prints them, for zero and the numbers that are not
  finite; the sample ideas hold no other number.
\<close>

definition sample_number_to_string :: "jsnum \<Rightarrow> string" where
  "sample_number_to_string n =
     (case n of
        PosInfinity \<Rightarrow> ''Infinity''
      | NegInfinity \<Rightarrow> ''-Infinity''
      | NaN \<Rightarrow> ''NaN''
      | NegZero \<Rightarrow> ''0''
      | Finite r \<Rightarrow> ''0'')"

text \<open>
  A model that answers the connection test, the idea request and the evaluation request;
  the requests differ in their generation configuration.
\<close>

definition sample_generateContent :: "gateway_request \<Rightarrow> js_error + string" where
  "sample_generateContent req =
     (if generationConfig req = None then Inr ''API connection successful''
      else if generationConfig req = Some idea_config then Inr sample_idea_text
      else Inr sample_evaluation_text)"

definition sample_env :: env where
  "sample_env =
     \<lparr>json_parse = sample_json_parse,
      json_stringify_pretty = sample_stringify_pretty,
      number_to_string = sample_number_to_string,
      date_now = 1700000000000,
      generateContent = sample_generateContent\<rparr>"

text \<open>A network that is down: every request throws.\<close>

definition fetch_error :: js_error where
  "fetch_error = \<lparr>message = Some ''Failed to fetch'', name = Some ''TypeError'',
     status = None, statusText = None, stack = Some ''TypeError: Failed to fetch''\<rparr>"

definition offline_env :: env where
  "offline_env = sample_env\<lparr>generateContent := \<lambda>req. Inl fetch_error\<rparr>"

text \<open>A model that answers every request with the text that is not JSON.\<close>

definition garbled_env :: env where
  "garbled_env = sample_env\<lparr>generateContent := \<lambda>req. Inr malformed_json\<rparr>"




text \<open>
  A model that answers the idea request with a refusal in plain words, which happens to
  hold the marker of a quota error.
\<close>

definition refusing_env :: env where
  "refusing_env =
     sample_env\<lparr>generateContent := \<lambda>req. if generationConfig req = Some idea_config
                                         then Inr ''QUOTA_EXCEEDED is a common error''
                                         else sample_generateContent req\<rparr>"

text \<open>
  The state of the component when it is mounted, with a stored credential loaded and a
  category selected; the state after an idea was generated and evaluated from there; that
  state with a generation and an evaluation both started; and that state after
  \<^verbatim>\<open>clearApiKey\<close>.
\<close>

definition initial_state :: state where
  "initial_state =
     \<lparr>currentIdea = None,
      evaluation = None,
      showEvaluation = False,
      apiKey = ''AIzaSample'',
      tempApiKey = [],
      showApiKeyInput = False,
      isGenerating = False,
      isEvaluating = False,
      error = [],
      selectedCategory = ''FinTech'',
      debugInfo = []\<rparr>"

definition sample_state :: state where
  "sample_state =
     fst (evaluateAIIdea sample_env (fst (generateAIIdea sample_env initial_state)))"

definition busy_state :: state where
  "busy_state = evaluate_begin (generate_begin sample_state)"

definition no_key_state :: state where
  "no_key_state = fst (clearApiKey (sample_state, Some ''AIzaSample''))"




section \<open>Trimming\<close>

text \<open>
  The trimmed text is the given text without a run of white space at each end, and it
  neither begins nor ends with white space.
\<close>

lemma trim_decomp:
  "\<exists>before after. s = before @ trim s @ after \<and> list_all is_space before \<and> list_all is_space after"
proof -
  define d where "d = dropWhile is_space s"
  have s: "s = takeWhile is_space s @ d"
    by (simp add: d_def)
  have "rev (rev d) = rev (takeWhile is_space (rev d) @ dropWhile is_space (rev d))"
    by (simp only: takeWhile_dropWhile_id)
  then have "d = rev (dropWhile is_space (rev d)) @ rev (takeWhile is_space (rev d))"
    by (simp only: rev_rev_ident rev_append)
  then have d: "d = trim s @ rev (takeWhile is_space (rev d))"
    by (simp only: trim_def d_def)
  have a: "list_all is_space (takeWhile is_space s)"
    and b: "list_all is_space (rev (takeWhile is_space (rev d)))"
    by (auto simp: list_all_iff dest: set_takeWhileD)
  from s d have "s = takeWhile is_space s @ trim s @ rev (takeWhile is_space (rev d))"
    by simp
  with a b show ?thesis by blast
qed

lemma trim_ends:
  assumes "trim s \<noteq> []"
  shows "\<not> is_space (hd (trim s)) \<and> \<not> is_space (last (trim s))"
proof -
  define d where "d = dropWhile is_space s"
  define r where "r = dropWhile is_space (rev d)"
  have t: "trim s = rev r"
    by (simp add: trim_def d_def r_def)
  with assms have r: "r \<noteq> []" by simp
  then have l: "\<not> is_space (hd r)"
    unfolding r_def by (rule hd_dropWhile)
  from r have "rev d \<noteq> []" by (auto simp: r_def)
  then have dn: "d \<noteq> []" by simp
  then have hd: "\<not> is_space (hd d)"
    unfolding d_def by (rule hd_dropWhile)
  have "rev d = takeWhile is_space (rev d) @ r"
    by (simp add: r_def)
  then have "last (rev d) = last (takeWhile is_space (rev d) @ r)"
    by (rule arg_cong)
  also have "\<dots> = last r"
    using r by (rule last_appendR)
  finally have "last r = hd d"
    using dn by (simp add: last_rev)
  with hd l r show ?thesis
    by (simp add: t hd_rev last_rev)
qed

section \<open>Fence removal: the leftmost match is the one at the start\<close>

text \<open>
  The text begins with the opening marker, so the leftmost match of the first expression
  is at the start; the second expression can match at the end only. Together the two
  rewrites are the fence step in the words of the specification.
\<close>

lemma starts_with_prefix: "starts_with s p = prefix p s"
  unfolding starts_with_def
  by (metis append_eq_conv_conj prefix_def take_is_prefix)

lemma replace_open_at_start:
  "starts_with t lit \<Longrightarrow> replace_open lit t = opt_nl (drop (length lit) t)"
  by (cases t) (auto simp: starts_with_def)

lemma suffix_Cons_neq: "c # cs \<noteq> p \<Longrightarrow> suffix p (c # cs) = suffix p cs"
  by (auto simp: suffix_Cons)

lemma take_Cons_diff: "Suc k \<le> n \<Longrightarrow> take (n - k) (c # cs) = c # take (n - Suc k) cs"
proof -
  assume "Suc k \<le> n"
  then have "n - k = Suc (n - Suc k)" by arith
  then show ?thesis by simp
qed

lemma replace_close_suffix:
  "replace_close lit s =
     (if suffix (CHR 0x0A # lit) s then take (length s - Suc (length lit)) s
      else if suffix lit s then take (length s - length lit) s
      else s)"
proof (induction s)
  case Nil
  then show ?case by simp
next
  case (Cons c cs)
  show ?case
  proof (cases "c # cs = CHR 0x0A # lit \<or> c # cs = lit")
    case True
    then show ?thesis by (auto simp: suffix_Cons dest: suffix_length_le)
  next
    case False
    then have a: "suffix (CHR 0x0A # lit) (c # cs) = suffix (CHR 0x0A # lit) cs"
      and b: "suffix lit (c # cs) = suffix lit cs"
      by (simp_all add: suffix_Cons_neq)
    have la: "suffix (CHR 0x0A # lit) cs \<Longrightarrow> Suc (length lit) \<le> length cs"
      using suffix_length_le by fastforce
    have lb: "suffix lit cs \<Longrightarrow> length lit \<le> length cs"
      using suffix_length_le by fastforce
    from False show ?thesis
      unfolding a b using la lb Cons.IH
      by (auto simp: take_Cons_diff)
  qed
qed

lemma replace_close_fence:
  "replace_close ''```'' s =
     (if suffix (nl @ ''```'') s then take (length s - 4) s
      else if suffix ''```'' s then take (length s - 3) s
      else s)"
proof -
  have l: "Suc (length ''```'') = 4" "length ''```'' = 3" by simp_all
  show ?thesis
    unfolding replace_close_suffix [of "''```''" s] l nl_def by simp
qed

lemma fence_pair_refines:
  "starts_with t marker \<Longrightarrow>
     replace_close ''```'' (replace_open marker t) = strip_fence_pair marker t"
  unfolding strip_fence_pair_def Let_def replace_close_fence
  by (simp only: replace_open_at_start)

lemma clean_text_spec: "clean_text raw = strip_fences_spec (trim raw)"
proof (cases "starts_with (trim raw) ''```json''")
  case True
  then show ?thesis
    by (simp add: clean_text_def strip_fences_spec_def Let_def fence_pair_refines
        starts_with_prefix [symmetric])
next
  case False
  show ?thesis
  proof (cases "starts_with (trim raw) ''```''")
    case True
    then show ?thesis
      using False
      by (simp add: clean_text_def strip_fences_spec_def Let_def fence_pair_refines
          starts_with_prefix [symmetric])
  next
    case no: False
    then show ?thesis
      using False
      by (simp add: clean_text_def strip_fences_spec_def Let_def starts_with_prefix [symmetric])
  qed
qed

lemma opt_nl_cases: "s = opt_nl s \<or> s = CHR 0x0A # opt_nl s"
  by (cases s) auto

lemma strip_fence_pair_decomp:
  assumes "prefix marker t"
  shows "\<exists>opening closing. t = opening @ strip_fence_pair marker t @ closing
           \<and> opening \<in> {marker, marker @ nl} \<and> closing \<in> {[], ''```'', nl @ ''```''}"
proof -
  define rest where "rest = drop (length marker) t"
  define body where "body = opt_nl rest"
  have t: "t = marker @ rest"
    using assms by (auto simp: rest_def prefix_def)
  have r: "rest = body \<or> rest = nl @ body"
    using opt_nl_cases [of rest] by (simp add: body_def nl_def)
  have b: "\<exists>closing. body = strip_fence_pair marker t @ closing
             \<and> closing \<in> {[], ''```'', nl @ ''```''}"
  proof (cases "suffix (nl @ ''```'') body")
    case True
    then obtain u where "body = u @ nl @ ''```''" by (auto simp: suffix_def)
    then show ?thesis
      using True by (simp add: strip_fence_pair_def rest_def [symmetric] body_def [symmetric] nl_def)
  next
    case False
    show ?thesis
    proof (cases "suffix ''```'' body")
      case True
      then obtain u where "body = u @ ''```''" by (auto simp: suffix_def)
      then show ?thesis
        using True False by (simp add: strip_fence_pair_def rest_def [symmetric] body_def [symmetric] nl_def)
    next
      case no: False
      then show ?thesis
        using False by (simp add: strip_fence_pair_def rest_def [symmetric] body_def [symmetric])
    qed
  qed
  then obtain closing where c: "body = strip_fence_pair marker t @ closing"
    and c': "closing \<in> {[], ''```'', nl @ ''```''}" by blast
  from r show ?thesis
  proof
    assume "rest = body"
    then have "t = marker @ strip_fence_pair marker t @ closing" using t c by simp
    then show ?thesis using c' by blast
  next
    assume "rest = nl @ body"
    then have "t = (marker @ nl) @ strip_fence_pair marker t @ closing" using t c by simp
    then show ?thesis using c' by blast
  qed
qed

lemma strip_fences_spec_decomp:
  "\<exists>opening closing.
      t = opening @ strip_fences_spec t @ closing \<and>
      (if prefix ''```json'' t then
         opening \<in> {''```json'', ''```json'' @ nl} \<and> closing \<in> {[], ''```'', nl @ ''```''}
       else if prefix ''```'' t then
         opening \<in> {''```'', ''```'' @ nl} \<and> closing \<in> {[], ''```'', nl @ ''```''}
       else opening = [] \<and> closing = [])"
proof (cases "prefix ''```json'' t")
  case True
  from strip_fence_pair_decomp [OF True] True show ?thesis
    by (simp only: strip_fences_spec_def if_True)
next
  case False
  show ?thesis
  proof (cases "prefix ''```'' t")
    case True
    from strip_fence_pair_decomp [OF True] True False show ?thesis
      by (simp only: strip_fences_spec_def if_True if_False)
  next
    case no: False
    with False show ?thesis
      by (simp add: strip_fences_spec_def)
  qed
qed

section \<open>The brace match: from the first opening to the last closing brace\<close>

text \<open>
  \<open>upto_last\<close> finds a closing brace exactly when there is one, and then cuts after the
  last one; \<open>match_json\<close> starts at the first opening brace, since a later opening brace
  has a closing brace behind it only if the first one has.
\<close>

lemma upto_last_None: "upto_last c xs = None \<longleftrightarrow> c \<notin> set xs"
  by (induction xs) (auto split: option.splits)

lemma upto_last_Some:
  "upto_last c xs = Some m \<longleftrightarrow> (\<exists>mid post. xs = m @ post \<and> m = mid @ [c] \<and> c \<notin> set post)"
proof (induction xs arbitrary: m)
  case Nil
  then show ?case by simp
next
  case (Cons x xs)
  show ?case
  proof (cases "upto_last c xs")
    case None
    then have n: "c \<notin> set xs" by (simp add: upto_last_None)
    show ?thesis
    proof
      assume "upto_last c (x # xs) = Some m"
      with None have "x = c" "m = [x]" by (auto split: if_splits)
      with n show "\<exists>mid post. x # xs = m @ post \<and> m = mid @ [c] \<and> c \<notin> set post"
        by auto
    next
      assume "\<exists>mid post. x # xs = m @ post \<and> m = mid @ [c] \<and> c \<notin> set post"
      then obtain mid post where h: "x # xs = m @ post" "m = mid @ [c]" "c \<notin> set post"
        by blast
      have "mid = []"
      proof (cases mid)
        case Nil then show ?thesis .
      next
        case (Cons a as)
        with h have "xs = as @ [c] @ post" by simp
        with n show ?thesis by simp
      qed
      with h None show "upto_last c (x # xs) = Some m" by simp
    qed
  next
    case (Some m')
    from Some Cons.IH [of m'] obtain mid' post' where
      h': "xs = m' @ post'" "m' = mid' @ [c]" "c \<notin> set post'" by blast
    show ?thesis
    proof
      assume "upto_last c (x # xs) = Some m"
      with Some have "m = x # m'" by simp
      with h' show "\<exists>mid post. x # xs = m @ post \<and> m = mid @ [c] \<and> c \<notin> set post"
        by auto
    next
      assume "\<exists>mid post. x # xs = m @ post \<and> m = mid @ [c] \<and> c \<notin> set post"
      then obtain mid post where h: "x # xs = m @ post" "m = mid @ [c]" "c \<notin> set post"
        by blast
      have "m = x # m'"
      proof (cases mid)
        case Nil
        with h have "xs = post" "x = c" by simp_all
        with h(3) h' show ?thesis by simp
      next
        case (Cons a as)
        with h have a: "a = x" and xs: "xs = (as @ [c]) @ post" by simp_all
        from xs h(3) have "upto_last c xs = Some (as @ [c])"
          using Cons.IH [of "as @ [c]"] by blast
        with Some have "m' = as @ [c]" by simp
        with Cons a h show ?thesis by simp
      qed
      with Some show "upto_last c (x # xs) = Some m" by simp
    qed
  qed
qed

lemma match_json_None:
  "match_json t = None \<longleftrightarrow> (\<nexists>a b c. t = a @ ''{'' @ b @ ''}'' @ c)"
proof (induction t)
  case Nil
  then show ?case by simp
next
  case (Cons x xs)
  show ?case
  proof (cases "x = CHR ''{'' \<and> CHR ''}'' \<in> set xs")
    case True
    then obtain b c where "xs = b @ CHR ''}'' # c" by (auto simp: in_set_conv_decomp)
    then have "x # xs = [] @ ''{'' @ b @ ''}'' @ c" using True by simp
    then have "\<exists>a b c. x # xs = a @ ''{'' @ b @ ''}'' @ c" by blast
    moreover have "match_json (x # xs) \<noteq> None"
      using True by (auto simp: upto_last_None split: option.splits)
    ultimately show ?thesis by blast
  next
    case False
    have m: "match_json (x # xs) = match_json xs"
    proof (cases "x = CHR ''{''")
      case True
      with False have "upto_last (CHR ''}'') xs = None" by (simp add: upto_last_None)
      with True show ?thesis by simp
    next
      case no: False
      then show ?thesis by simp
    qed
    have "(\<exists>a b c. x # xs = a @ ''{'' @ b @ ''}'' @ c) \<longleftrightarrow> (\<exists>a b c. xs = a @ ''{'' @ b @ ''}'' @ c)"
    proof
      assume "\<exists>a b c. x # xs = a @ ''{'' @ b @ ''}'' @ c"
      then obtain a b c where h: "x # xs = a @ ''{'' @ b @ ''}'' @ c" by blast
      show "\<exists>a b c. xs = a @ ''{'' @ b @ ''}'' @ c"
      proof (cases a)
        case Nil
        with h have "x = CHR ''{''" "CHR ''}'' \<in> set xs" by auto
        with False show ?thesis by simp
      next
        case (Cons a0 as)
        with h have "xs = as @ ''{'' @ b @ ''}'' @ c" by simp
        then show ?thesis by blast
      qed
    next
      assume "\<exists>a b c. xs = a @ ''{'' @ b @ ''}'' @ c"
      then obtain a b c where "xs = a @ ''{'' @ b @ ''}'' @ c" by blast
      then have "x # xs = (x # a) @ ''{'' @ b @ ''}'' @ c" by simp
      then show "\<exists>a b c. x # xs = a @ ''{'' @ b @ ''}'' @ c" by blast
    qed
    with m Cons.IH show ?thesis by simp
  qed
qed

lemma match_json_Some:
  "match_json t = Some m \<longleftrightarrow>
     (\<exists>pre mid post. t = pre @ m @ post \<and> m = ''{'' @ mid @ ''}''
        \<and> CHR ''{'' \<notin> set pre \<and> CHR ''}'' \<notin> set post)"
proof (induction t)
  case Nil
  then show ?case by simp
next
  case (Cons x xs)
  show ?case
  proof (cases "x = CHR ''{''")
    case True
    show ?thesis
    proof (cases "upto_last (CHR ''}'') xs")
      case None
      then have n: "CHR ''}'' \<notin> set xs" by (simp add: upto_last_None)
      then have "\<nexists>a b c. xs = a @ ''{'' @ b @ ''}'' @ c" by auto
      then have "match_json xs = None" by (simp add: match_json_None)
      with None True have l: "match_json (x # xs) = None" by simp
      have "\<not> (\<exists>pre mid post. x # xs = pre @ m @ post \<and> m = ''{'' @ mid @ ''}''
        \<and> CHR ''{'' \<notin> set pre \<and> CHR ''}'' \<notin> set post)"
      proof
        assume "\<exists>pre mid post. x # xs = pre @ m @ post \<and> m = ''{'' @ mid @ ''}''
        \<and> CHR ''{'' \<notin> set pre \<and> CHR ''}'' \<notin> set post"
        then obtain pre mid post where h: "x # xs = pre @ m @ post" "m = ''{'' @ mid @ ''}''"
          "CHR ''{'' \<notin> set pre" by blast
        with True have "pre = []" by (cases pre) auto
        with h have "xs = mid @ ''}'' @ post" by simp
        with n show False by simp
      qed
      with l show ?thesis by simp
    next
      case (Some m')
      with True have l: "match_json (x # xs) = Some (x # m')" by simp
      from Some obtain mid' post' where
        h': "xs = m' @ post'" "m' = mid' @ ''}''" "CHR ''}'' \<notin> set post'"
        by (auto simp: upto_last_Some)
      show ?thesis
      proof
        assume "match_json (x # xs) = Some m"
        with l have "m = x # m'" by simp
        with h' True have "x # xs = [] @ m @ post' \<and> m = ''{'' @ mid' @ ''}''
            \<and> CHR ''{'' \<notin> set [] \<and> CHR ''}'' \<notin> set post'" by simp
        then show "\<exists>pre mid post. x # xs = pre @ m @ post \<and> m = ''{'' @ mid @ ''}''
          \<and> CHR ''{'' \<notin> set pre \<and> CHR ''}'' \<notin> set post" by blast
      next
        assume "\<exists>pre mid post. x # xs = pre @ m @ post \<and> m = ''{'' @ mid @ ''}''
          \<and> CHR ''{'' \<notin> set pre \<and> CHR ''}'' \<notin> set post"
        then obtain pre mid post where h: "x # xs = pre @ m @ post" "m = ''{'' @ mid @ ''}''"
          "CHR ''{'' \<notin> set pre" "CHR ''}'' \<notin> set post" by blast
        with True have "pre = []" by (cases pre) auto
        with h have "xs = (mid @ ''}'') @ post" by simp
        with h(4) have "upto_last (CHR ''}'') xs = Some (mid @ ''}'')"
          unfolding upto_last_Some by blast
        with Some have "m' = mid @ ''}''" by simp
        with h True l show "match_json (x # xs) = Some m" by simp
      qed
    qed
  next
    case False
    then have l: "match_json (x # xs) = match_json xs" by simp
    have "(\<exists>pre mid post. x # xs = pre @ m @ post \<and> m = ''{'' @ mid @ ''}''
          \<and> CHR ''{'' \<notin> set pre \<and> CHR ''}'' \<notin> set post) \<longleftrightarrow>
        (\<exists>pre mid post. xs = pre @ m @ post \<and> m = ''{'' @ mid @ ''}''
          \<and> CHR ''{'' \<notin> set pre \<and> CHR ''}'' \<notin> set post)"
    proof
      assume "\<exists>pre mid post. x # xs = pre @ m @ post \<and> m = ''{'' @ mid @ ''}''
          \<and> CHR ''{'' \<notin> set pre \<and> CHR ''}'' \<notin> set post"
      then obtain pre mid post where h: "x # xs = pre @ m @ post" "m = ''{'' @ mid @ ''}''"
          "CHR ''{'' \<notin> set pre" "CHR ''}'' \<notin> set post" by blast
      from h False obtain pre' where p: "pre = x # pre'" by (cases pre) auto
      with h have "xs = pre' @ m @ post \<and> m = ''{'' @ mid @ ''}''
          \<and> CHR ''{'' \<notin> set pre' \<and> CHR ''}'' \<notin> set post" by simp
      then show "\<exists>pre mid post. xs = pre @ m @ post \<and> m = ''{'' @ mid @ ''}''
          \<and> CHR ''{'' \<notin> set pre \<and> CHR ''}'' \<notin> set post" by blast
    next
      assume "\<exists>pre mid post. xs = pre @ m @ post \<and> m = ''{'' @ mid @ ''}''
          \<and> CHR ''{'' \<notin> set pre \<and> CHR ''}'' \<notin> set post"
      then obtain pre mid post where h: "xs = pre @ m @ post" "m = ''{'' @ mid @ ''}''"
          "CHR ''{'' \<notin> set pre" "CHR ''}'' \<notin> set post" by blast
      with False have "x # xs = (x # pre) @ m @ post \<and> m = ''{'' @ mid @ ''}''
          \<and> CHR ''{'' \<notin> set (x # pre) \<and> CHR ''}'' \<notin> set post" by simp
      then show "\<exists>pre mid post. x # xs = pre @ m @ post \<and> m = ''{'' @ mid @ ''}''
          \<and> CHR ''{'' \<notin> set pre \<and> CHR ''}'' \<notin> set post" by blast
    qed
    with l Cons.IH show ?thesis by simp
  qed
qed

section \<open>The branches of the try blocks\<close>

text \<open>
  A try block ends in one of a few ways: the connection test fails, the request throws,
  the answer does not parse or validate, or all of it succeeds. Each case fixes the
  outcome, the state and the requests sent.
\<close>

lemma generate_begin_reads [simp]:
  "apiKey (generate_begin s) = apiKey s"
  "selectedCategory (generate_begin s) = selectedCategory s"
  "currentIdea (generate_begin s) = currentIdea s"
  "evaluation (generate_begin s) = evaluation s"
  "idea_request (generate_begin s) = idea_request s"
  by (simp_all add: generate_begin_def idea_request_def)

lemma evaluate_begin_reads [simp]:
  "apiKey (evaluate_begin s) = apiKey s"
  "currentIdea (evaluate_begin s) = currentIdea s"
  "evaluation (evaluate_begin s) = evaluation s"
  "evaluation_request e (evaluate_begin s) idea = evaluation_request e s idea"
  by (simp_all add: evaluate_begin_def evaluation_request_def)

lemma generate_try_cases:
  obtains
    (conn_failed) msg details where
      "testApiConnection e (apiKey s) = ConnFailed msg details"
      "generate_try e s =
         (Inl (Error (''API Connection Failed: '' @ msg)),
          s\<lparr>debugInfo := ''Connection failed: '' @ json_stringify_pretty e details\<rparr>,
          [test_request (apiKey s)])"
  | (request_failed) msg err where
      "testApiConnection e (apiKey s) = ConnOk msg"
      "generateContent e (idea_request s) = Inl err"
      "generate_try e s =
         (Inl err, s\<lparr>debugInfo := ''Sending request to Gemini...''\<rparr>,
          [test_request (apiKey s), idea_request s])"
  | (parse_failed) msg answer err where
      "testApiConnection e (apiKey s) = ConnOk msg"
      "generateContent e (idea_request s) = Inr answer"
      "parse_idea e answer = Inl err"
      "generate_try e s =
         (Inl err, s\<lparr>debugInfo := ''Received response: '' @ take 100 answer @ ''...''\<rparr>,
          [test_request (apiKey s), idea_request s])"
  | (succeeded) msg answer ideaData where
      "testApiConnection e (apiKey s) = ConnOk msg"
      "generateContent e (idea_request s) = Inr answer"
      "parse_idea e answer = Inr ideaData"
      "generate_try e s =
         (Inr (),
          s\<lparr>currentIdea := Some (newIdea e ideaData), showEvaluation := False,
            evaluation := None, debugInfo := ''Idea generated successfully!''\<rparr>,
          [test_request (apiKey s), idea_request s])"
proof (cases "testApiConnection e (apiKey s)")
  case (ConnFailed msg details)
  then show ?thesis
    using conn_failed by (simp add: generate_try_def)
next
  case (ConnOk msg)
  show ?thesis
  proof (cases "generateContent e (idea_request s)")
    case (Inl err)
    with ConnOk show ?thesis
      using request_failed by (simp add: generate_try_def)
  next
    case (Inr answer)
    show ?thesis
    proof (cases "parse_idea e answer")
      case (Inl err)
      with ConnOk Inr show ?thesis
        using parse_failed by (simp add: generate_try_def)
    next
      case r: (Inr ideaData)
      with ConnOk Inr show ?thesis
        using succeeded by (simp add: generate_try_def)
    qed
  qed
qed

lemma evaluate_try_cases:
  obtains
    (request_failed) err where
      "generateContent e (evaluation_request e s idea) = Inl err"
      "evaluate_try e idea s =
         (Inl err, s\<lparr>debugInfo := ''Sending evaluation request to Gemini...''\<rparr>,
          [evaluation_request e s idea])"
  | (parse_failed) answer err where
      "generateContent e (evaluation_request e s idea) = Inr answer"
      "parse_evaluation e answer = Inl err"
      "evaluate_try e idea s =
         (Inl err,
          s\<lparr>debugInfo := ''Received evaluation response: '' @ take 100 answer @ ''...''\<rparr>,
          [evaluation_request e s idea])"
  | (succeeded) answer evaluationData where
      "generateContent e (evaluation_request e s idea) = Inr answer"
      "parse_evaluation e answer = Inr evaluationData"
      "evaluate_try e idea s =
         (Inr (),
          s\<lparr>evaluation := Some (newEvaluation evaluationData), showEvaluation := True,
            debugInfo := ''AI evaluation completed successfully!''\<rparr>,
          [evaluation_request e s idea])"
proof (cases "generateContent e (evaluation_request e s idea)")
  case (Inl err)
  then show ?thesis
    using request_failed by (simp add: evaluate_try_def)
next
  case (Inr answer)
  show ?thesis
  proof (cases "parse_evaluation e answer")
    case (Inl err)
    with Inr show ?thesis
      using parse_failed by (simp add: evaluate_try_def)
  next
    case r: (Inr evaluationData)
    with Inr show ?thesis
      using succeeded by (simp add: evaluate_try_def)
  qed
qed

section \<open>Runs of the handlers\<close>

lemma generate_run_succeeded:
  assumes "trim (apiKey s) \<noteq> []"
    and "testApiConnection e (apiKey s) = ConnOk msg"
    and "generateContent e (idea_request s) = Inr answer"
    and "parse_idea e answer = Inr ideaData"
  shows "generateAIIdea e s =
     ((generate_begin s)\<lparr>currentIdea := Some (newIdea e ideaData), showEvaluation := False,
        evaluation := None, debugInfo := ''Idea generated successfully!'',
        isGenerating := False\<rparr>,
      [test_request (apiKey s), idea_request s])"
  using assms
  by (cases e "generate_begin s" rule: generate_try_cases) (simp_all add: generateAIIdea_def)

lemma evaluate_run_succeeded:
  assumes "trim (apiKey s) \<noteq> []"
    and "currentIdea s = Some idea"
    and "generateContent e (evaluation_request e s idea) = Inr answer"
    and "parse_evaluation e answer = Inr evaluationData"
  shows "evaluateAIIdea e s =
     ((evaluate_begin s)\<lparr>evaluation := Some (newEvaluation evaluationData),
        showEvaluation := True, debugInfo := ''AI evaluation completed successfully!'',
        isEvaluating := False\<rparr>,
      [evaluation_request e s idea])"
  using assms
  by (cases e "evaluate_begin s" idea rule: evaluate_try_cases) (simp_all add: evaluateAIIdea_def)

lemma generate_failure:
  assumes "trim (apiKey s) \<noteq> []" and "generate_outcome e s = Inl err"
  shows "error (fst (generateAIIdea e s)) = generate_errorMessage err \<and>
         debugInfo (fst (generateAIIdea e s)) =
           ''Error details: '' @ json_stringify_pretty e (error_details err) \<and>
         currentIdea (fst (generateAIIdea e s)) = currentIdea s \<and>
         evaluation (fst (generateAIIdea e s)) = evaluation s \<and>
         \<not> isGenerating (fst (generateAIIdea e s))"
  using assms
  by (cases e "generate_begin s" rule: generate_try_cases)
     (simp_all add: generateAIIdea_def generate_outcome_def generate_catch_def)

lemma evaluate_failure:
  assumes "trim (apiKey s) \<noteq> []" and "currentIdea s = Some idea"
    and "evaluate_outcome e idea s = Inl err"
  shows "error (fst (evaluateAIIdea e s)) = evaluate_errorMessage err \<and>
         debugInfo (fst (evaluateAIIdea e s)) =
           ''Evaluation error details: '' @ json_stringify_pretty e (error_details err) \<and>
         currentIdea (fst (evaluateAIIdea e s)) = currentIdea s \<and>
         evaluation (fst (evaluateAIIdea e s)) = evaluation s \<and>
         \<not> isEvaluating (fst (evaluateAIIdea e s))"
  using assms
  by (cases e "evaluate_begin s" idea rule: evaluate_try_cases)
     (simp_all add: evaluateAIIdea_def evaluate_outcome_def evaluate_catch_def)

lemma generate_flag:
  "isGenerating (fst (generateAIIdea e s)) = (trim (apiKey s) = [] \<and> isGenerating s)"
  by (cases e "generate_begin s" rule: generate_try_cases)
     (simp_all add: generateAIIdea_def generate_catch_def)

lemma evaluate_flag:
  "isEvaluating (fst (evaluateAIIdea e s)) =
     ((currentIdea s = None \<or> trim (apiKey s) = []) \<and> isEvaluating s)"
proof (cases "currentIdea s")
  case None
  then show ?thesis by (simp add: evaluateAIIdea_def)
next
  case (Some idea)
  then show ?thesis
    by (cases e "evaluate_begin s" idea rule: evaluate_try_cases)
       (simp_all add: evaluateAIIdea_def evaluate_catch_def)
qed

lemma generate_begin_flag:
  "generate_begin (s\<lparr>isGenerating := b\<rparr>) = generate_begin s"
  by (simp add: generate_begin_def)

lemma evaluate_begin_flag:
  "evaluate_begin (s\<lparr>isEvaluating := b\<rparr>) = evaluate_begin s"
  by (simp add: evaluate_begin_def)

text \<open>Without a credential neither handler sends a request.\<close>

lemma blocked_without_key:
  assumes "trim (apiKey s) = []"
  shows "generateAIIdea e s = (s\<lparr>showApiKeyInput := True\<rparr>, [])"
    and "evaluateAIIdea e s = (s, [])"
  using assms by (simp_all add: generateAIIdea_def evaluateAIIdea_def split: option.splits)

section \<open>Validation and parsing\<close>

lemma validate_idea_fields_find:
  "validate_idea_fields req obj =
     (case find (\<lambda>f. \<not> truthy (map_of obj f)) req of
        None \<Rightarrow> Inr ()
      | Some f \<Rightarrow> Inl (Error (''Missing required field: '' @ f)))"
  by (induction req) simp_all

lemma validate_evaluation_fields_find:
  "validate_evaluation_fields req obj =
     (case find (\<lambda>f. nullish (map_of obj f)) req of
        None \<Rightarrow> Inr ()
      | Some f \<Rightarrow> Inl (Error (''Missing required evaluation field: '' @ f)))"
  by (induction req) simp_all

lemma truthy_iff:
  "truthy v \<longleftrightarrow>
     \<not> nullish v \<and> v \<noteq> Some (JBool False) \<and> v \<noteq> Some (JStr []) \<and>
     v \<noteq> Some (JNum (Finite 0)) \<and> v \<noteq> Some (JNum NegZero) \<and> v \<noteq> Some (JNum NaN)"
proof (cases v)
  case None
  then show ?thesis by (simp add: nullish_def)
next
  case (Some j)
  then show ?thesis by (cases j) (auto simp: nullish_def)
qed


lemma parse_idea_with_Inr:
  "parse_idea_with req e answer = Inr obj \<Longrightarrow> validate_idea_fields req obj = Inr ()"
  by (auto simp: parse_idea_with_def Let_def split: option.splits sum.splits)

lemma parse_evaluation_with_Inr:
  "parse_evaluation_with req e answer = Inr obj \<Longrightarrow> validate_evaluation_fields req obj = Inr ()"
  by (auto simp: parse_evaluation_with_def Let_def split: option.splits sum.splits)


text \<open>A text that is one brace-delimited span passes the cleaning steps unchanged.\<close>

lemma trim_braces: "trim (''{'' @ body @ ''}'') = ''{'' @ body @ ''}''"
  by (simp add: trim_def is_space_def)

lemma clean_text_braces: "clean_text (''{'' @ body @ ''}'') = ''{'' @ body @ ''}''"
  unfolding clean_text_def trim_braces Let_def
  by (simp add: starts_with_def)

lemma match_json_braces: "match_json (''{'' @ body @ ''}'') = Some (''{'' @ body @ ''}'')"
proof -
  have "\<exists>pre mid post. ''{'' @ body @ ''}'' = pre @ (''{'' @ body @ ''}'') @ post
      \<and> ''{'' @ body @ ''}'' = ''{'' @ mid @ ''}''
      \<and> CHR ''{'' \<notin> set pre \<and> CHR ''}'' \<notin> set post"
    by (rule exI [of _ "[]"], rule exI [of _ body], rule exI [of _ "[]"]) simp
  then show ?thesis
    by (simp only: match_json_Some)
qed

lemma parse_idea_with_object_text:
  "clean_text t = t \<Longrightarrow> match_json t = Some t \<Longrightarrow> json_parse e t = Inr R \<Longrightarrow>
     validate_idea_fields req R = Inr () \<Longrightarrow> parse_idea_with req e t = Inr R"
  by (simp add: parse_idea_with_def)

lemma parse_evaluation_with_object_text:
  "clean_text t = t \<Longrightarrow> match_json t = Some t \<Longrightarrow> json_parse e t = Inr R \<Longrightarrow>
     validate_evaluation_fields req R = Inr () \<Longrightarrow> parse_evaluation_with req e t = Inr R"
  by (simp add: parse_evaluation_with_def)

section \<open>The sample runs, evaluated\<close>

lemmas sample_defs =
  sample_idea_json_def sample_idea_object_def sample_idea_text_def sample_evaluation_json_def
  sample_evaluation_object_def sample_evaluation_text_def overflow_json_def null_title_json_def
  malformed_json_def SyntaxError_def sample_json_parse_def sample_env_def garbled_env_def

lemmas string_defs =
  nl_def is_space_def trim_def starts_with_def or_else_def clean_text_def

lemma clean_sample_idea_text: "clean_text sample_idea_text = sample_idea_json"
  by (simp add: sample_defs string_defs)

lemma match_sample_idea_json: "match_json sample_idea_json = Some sample_idea_json"
  by (simp add: sample_defs)

lemma parse_sample_idea: "parse_idea sample_env sample_idea_text = Inr sample_idea_object"
  unfolding parse_idea_def parse_idea_with_def clean_sample_idea_text Let_def match_sample_idea_json
  by (simp add: sample_defs requiredFields_idea_def)

lemma clean_sample_evaluation_text: "clean_text sample_evaluation_text = sample_evaluation_text"
  by (simp add: sample_defs string_defs)

lemma match_sample_evaluation_text: "match_json sample_evaluation_text = Some sample_evaluation_json"
  by (simp add: sample_defs)

lemma parse_sample_evaluation:
  "parse_evaluation sample_env sample_evaluation_text = Inr sample_evaluation_object"
  unfolding parse_evaluation_def parse_evaluation_with_def clean_sample_evaluation_text Let_def
    match_sample_evaluation_text
  by (simp add: sample_defs requiredFields_evaluation_def nullish_def)

lemma sample_connection:
  "testApiConnection sample_env k = ConnOk ''API connection successful''"
  by (simp add: testApiConnection_def test_request_def sample_env_def sample_generateContent_def)

lemma sample_idea_answer:
  "generateContent sample_env (idea_request s) = Inr sample_idea_text"
  by (simp add: idea_request_def sample_env_def sample_generateContent_def)

lemma sample_evaluation_answer:
  "generateContent sample_env (evaluation_request e s idea) = Inr sample_evaluation_text"
  by (simp add: evaluation_request_def sample_env_def sample_generateContent_def
      evaluation_config_def idea_config_def)

lemma initial_key: "trim (apiKey initial_state) = ''AIzaSample''"
  by (simp add: initial_state_def string_defs)

lemma generated_state:
  "fst (generateAIIdea sample_env initial_state) =
     initial_state\<lparr>currentIdea := Some (newIdea sample_env sample_idea_object),
       debugInfo := ''Idea generated successfully!''\<rparr>"
  unfolding generate_run_succeeded
    [OF _ sample_connection sample_idea_answer parse_sample_idea, of initial_state,
      unfolded initial_key, simplified]
  by (simp add: generate_begin_def initial_state_def)

lemma sample_state_eq:
  "sample_state =
     initial_state\<lparr>currentIdea := Some (newIdea sample_env sample_idea_object),
       evaluation := Some (newEvaluation sample_evaluation_object),
       showEvaluation := True,
       debugInfo := ''AI evaluation completed successfully!''\<rparr>"
proof -
  let ?s = "initial_state\<lparr>currentIdea := Some (newIdea sample_env sample_idea_object),
       debugInfo := ''Idea generated successfully!''\<rparr>"
  have k: "trim (apiKey ?s) \<noteq> []"
    by (simp add: initial_key)
  have i: "currentIdea ?s = Some (newIdea sample_env sample_idea_object)"
    by simp
  show ?thesis
    unfolding sample_state_def generated_state
      evaluate_run_succeeded [OF k i sample_evaluation_answer parse_sample_evaluation]
    by (simp add: evaluate_begin_def initial_state_def)
qed

lemma sample_key: "trim (apiKey sample_state) = ''AIzaSample''"
  by (simp add: sample_state_eq initial_key)

lemma sample_idea: "currentIdea sample_state = Some (newIdea sample_env sample_idea_object)"
  by (simp add: sample_state_eq)


lemma busy_key: "trim (apiKey busy_state) = ''AIzaSample''"
  by (simp add: busy_state_def sample_key)

lemma busy_flags: "isGenerating busy_state" "isEvaluating busy_state"
  by (simp_all add: busy_state_def generate_begin_def evaluate_begin_def)

lemma no_key: "trim (apiKey no_key_state) = []"
  by (simp add: no_key_state_def clearApiKey_def trim_def)

lemma busy_generate:
  "generateAIIdea sample_env busy_state =
     ((generate_begin busy_state)\<lparr>currentIdea := Some (newIdea sample_env sample_idea_object),
        showEvaluation := False, evaluation := None,
        debugInfo := ''Idea generated successfully!'', isGenerating := False\<rparr>,
      [test_request (apiKey busy_state), idea_request busy_state])"
  by (rule generate_run_succeeded [OF _ sample_connection sample_idea_answer parse_sample_idea])
     (simp add: busy_key)

lemma busy_evaluate:
  "evaluateAIIdea sample_env busy_state =
     ((evaluate_begin busy_state)\<lparr>evaluation := Some (newEvaluation sample_evaluation_object),
        showEvaluation := True, debugInfo := ''AI evaluation completed successfully!'',
        isEvaluating := False\<rparr>,
      [evaluation_request sample_env busy_state (newIdea sample_env sample_idea_object)])"
  by (rule evaluate_run_succeeded [OF _ _ sample_evaluation_answer parse_sample_evaluation])
     (simp_all add: busy_key, simp add: busy_state_def sample_idea)

section \<open>The handlers between their awaits, and the whole runs\<close>


lemma generateAIIdea_phases:
  assumes "trim (apiKey s) \<noteq> []" and "testApiConnection e (apiKey s) = ConnOk msg"
  shows "generateAIIdea e s =
     (generate_resume e (generateContent e (idea_request s))
        ((generate_begin s)\<lparr>debugInfo := ''Sending request to Gemini...''\<rparr>),
      [test_request (apiKey s), idea_request s])"
  using assms
  by (simp add: generateAIIdea_def generate_try_def generate_resume_def Let_def
      split: sum.splits)




section \<open>The identifier of an idea\<close>

text \<open>
  \<open>toString_nat\<close> writes a number in decimal: its characters are digits (the codes 48 to
  57), and they give the number back.
\<close>

lemma toString_nat_digits:
  "list_all (\<lambda>c. 48 \<le> (of_char c :: nat) \<and> (of_char c :: nat) \<le> 57) (toString_nat n)"
proof (induction n rule: toString_nat.induct)
  case (1 n)
  have d: "\<And>k::nat. k < 10 \<Longrightarrow>
      48 \<le> (of_char (char_of (48 + k) :: char) :: nat) \<and>
      (of_char (char_of (48 + k) :: char) :: nat) \<le> 57"
    by simp
  show ?case
  proof (cases "n < 10")
    case True
    then show ?thesis
      using d [of n] by (subst toString_nat.simps) (simp del: toString_nat.simps)
  next
    case False
    have "n mod 10 < 10" by simp
    then show ?thesis
      using False 1 d [of "n mod 10"]
      by (subst toString_nat.simps) (simp del: toString_nat.simps)
  qed
qed

lemma toString_nat_value:
  "foldl (\<lambda>a c. 10 * a + (of_char c - 48)) 0 (toString_nat n) = n"
proof (induction n rule: toString_nat.induct)
  case (1 n)
  have v: "\<And>k::nat. k < 10 \<Longrightarrow> (of_char (char_of (48 + k) :: char) :: nat) - 48 = k"
    by simp
  show ?case
  proof (cases "n < 10")
    case True
    then show ?thesis
      using v [of n] by (subst toString_nat.simps) (simp del: toString_nat.simps)
  next
    case False
    have "n mod 10 < 10" by simp
    then show ?thesis
      using False 1 v [of "n mod 10"]
      by (subst toString_nat.simps) (simp del: toString_nat.simps)
  qed
qed

section \<open>The messages of the catch blocks\<close>

lemma str_includes_sublist: "str_includes s p \<longleftrightarrow> sublist p s"
  by (induction s) (simp_all add: starts_with_prefix sublist_Cons_right)

lemma remove_first_absent: "\<not> sublist p m \<Longrightarrow> remove_first p m = m"
  by (induction m) (auto simp: starts_with_prefix sublist_Cons_right)

text \<open>The leftmost occurrence is the one that is removed.\<close>

lemma remove_first_leftmost:
  assumes "m = pre @ p @ post"
    and "\<And>pre' post'. m = pre' @ p @ post' \<Longrightarrow> length pre \<le> length pre'"
  shows "remove_first p m = pre @ post"
  using assms
proof (induction pre arbitrary: m)
  case Nil
  then have m: "m = p @ post" by simp
  show ?case
  proof (cases m)
    case Nil
    with m show ?thesis by simp
  next
    case (Cons c cs)
    have "starts_with m p"
      unfolding m by (simp add: starts_with_def)
    then have "remove_first p m = drop (length p) m"
      unfolding Cons by simp
    then show ?thesis
      unfolding m by simp
  qed
next
  case (Cons a pre)
  let ?t = "pre @ p @ post"
  have m: "m = a # ?t" using Cons.prems(1) by simp
  have "\<not> starts_with m p"
  proof
    assume "starts_with m p"
    then have "m = [] @ p @ drop (length p) m"
      by (simp add: starts_with_def) (metis append_take_drop_id)
    from Cons.prems(2) [OF this] show False by simp
  qed
  moreover have "remove_first p ?t = pre @ post"
  proof (rule Cons.IH [OF refl])
    fix pre' post'
    assume "?t = pre' @ p @ post'"
    then have "m = (a # pre') @ p @ post'" using m by simp
    from Cons.prems(2) [OF this] show "length pre \<le> length pre'" by simp
  qed
  ultimately show ?case
    using m by simp
qed

lemma generate_errorMessage_classes:
  "\<exists>shown. generate_errorMessage err = ''Failed to generate idea. '' @ shown \<and>
     (case message err of
        None \<Rightarrow> shown = ''Error: Unknown error occurred''
      | Some m \<Rightarrow>
          if sublist ''API_KEY_INVALID'' m then
            shown = ''Invalid API key. Please check your Gemini API key.''
          else if sublist ''PERMISSION_DENIED'' m then
            shown = ''Permission denied. Please ensure your API key has the correct permissions.''
          else if sublist ''QUOTA_EXCEEDED'' m then
            shown = ''API quota exceeded. Please check your usage limits.''
          else if sublist ''Failed to fetch'' m then
            shown = ''Network error. Please check your internet connection.''
          else if sublist ''API Connection Failed'' m then
            (\<forall>pre post.
               m = pre @ ''API Connection Failed: '' @ post \<and>
               (\<forall>pre' post'. m = pre' @ ''API Connection Failed: '' @ post' \<longrightarrow>
                  length pre \<le> length pre') \<longrightarrow>
               shown = pre @ post) \<and>
            (\<not> sublist ''API Connection Failed: '' m \<longrightarrow> shown = m)
          else if m = [] then shown = ''Error: Unknown error occurred''
          else shown = ''Error: '' @ m)"
proof (cases "message err")
  case None
  then show ?thesis
    by (simp add: generate_errorMessage_def message_includes_def or_else_def)
next
  case (Some m)
  define leftmost_removed where "leftmost_removed shown \<longleftrightarrow>
      (\<forall>pre post.
         m = pre @ ''API Connection Failed: '' @ post \<and>
         (\<forall>pre' post'. m = pre' @ ''API Connection Failed: '' @ post' \<longrightarrow>
            length pre \<le> length pre') \<longrightarrow>
         shown = pre @ post) \<and>
      (\<not> sublist ''API Connection Failed: '' m \<longrightarrow> shown = m)" for shown
  have l: "leftmost_removed (remove_first ''API Connection Failed: '' m)"
    unfolding leftmost_removed_def
    using remove_first_leftmost [of m _ "''API Connection Failed: ''"]
      remove_first_absent [of "''API Connection Failed: ''" m]
    by blast
  show ?thesis
    unfolding generate_errorMessage_def message_includes_def Some option.case
      str_includes_sublist or_else_def leftmost_removed_def [symmetric]
    using l by (simp del: remove_first.simps)
qed

lemma evaluate_errorMessage_classes:
  "\<exists>shown. evaluate_errorMessage err = ''Failed to evaluate idea. '' @ shown \<and>
     (case message err of
        None \<Rightarrow> shown = ''Error: Unknown error occurred''
      | Some m \<Rightarrow>
          if sublist ''API_KEY_INVALID'' m then
            shown = ''Invalid API key. Please check your Gemini API key.''
          else if sublist ''PERMISSION_DENIED'' m then
            shown = ''Permission denied. Please ensure your API key has the correct permissions.''
          else if sublist ''QUOTA_EXCEEDED'' m then
            shown = ''API quota exceeded. Please check your usage limits.''
          else if sublist ''Failed to fetch'' m then
            shown = ''Network error. Please check your internet connection.''
          else if m = [] then shown = ''Error: Unknown error occurred''
          else shown = ''Error: '' @ m)"
  by (cases "message err")
     (simp_all add: evaluate_errorMessage_def message_includes_def or_else_def
        str_includes_sublist)

section \<open>The credential, as the handlers store it\<close>

lemma trim_trim: "trim (trim s) = trim s"
proof (cases "trim s = []")
  case True
  then show ?thesis by (simp add: trim_def [of "[]"])
next
  case False
  from trim_ends [OF False] have h: "\<not> is_space (hd (trim s))" and l: "\<not> is_space (last (trim s))"
    by simp_all
  from False h have "dropWhile is_space (trim s) = trim s"
    by (cases "trim s") simp_all
  moreover from False l have "dropWhile is_space (rev (trim s)) = rev (trim s)"
    by (cases "rev (trim s)") (simp_all add: last_rev [symmetric] hd_rev)
  ultimately show ?thesis
    by (simp add: trim_def [of "trim s"])
qed

text \<open>
  \<^verbatim>\<open>saveApiKey\<close> and \<^verbatim>\<open>clearApiKey\<close> keep the credential either empty or not blank, and
  store what they set.
\<close>

lemma credential_empty_or_not_blank:
  assumes "apiKey s = [] \<or> trim (apiKey s) \<noteq> []"
  shows "(apiKey (fst (saveApiKey (s, stored))) = [] \<or>
          trim (apiKey (fst (saveApiKey (s, stored)))) \<noteq> []) \<and>
         apiKey (fst (clearApiKey (s, stored))) = []"
  using assms
  by (simp add: saveApiKey_def clearApiKey_def trim_trim)

section \<open>The later environment and the overtaken evaluation, evaluated\<close>













section \<open>The refusal, evaluated\<close>

lemma refusing_connection:
  "testApiConnection refusing_env k = ConnOk ''API connection successful''"
  by (simp add: testApiConnection_def test_request_def refusing_env_def sample_env_def
      sample_generateContent_def)

lemma refusing_answer:
  "generateContent refusing_env (idea_request s) = Inr ''QUOTA_EXCEEDED is a common error''"
  by (simp add: idea_request_def refusing_env_def)

lemma parse_refusal:
  "parse_idea e ''QUOTA_EXCEEDED is a common error'' =
     Inl (Error ''No valid JSON found in response: QUOTA_EXCEEDED is a common error'')"
proof -
  have c: "clean_text ''QUOTA_EXCEEDED is a common error'' = ''QUOTA_EXCEEDED is a common error''"
    by (simp add: string_defs)
  have m: "match_json ''QUOTA_EXCEEDED is a common error'' = None"
    by simp
  show ?thesis
    unfolding parse_idea_def parse_idea_with_def c Let_def m
    by simp
qed

lemma refusal_outcome:
  "generate_outcome refusing_env sample_state =
     Inl (Error ''No valid JSON found in response: QUOTA_EXCEEDED is a common error'')"
  by (simp add: generate_outcome_def generate_try_def refusing_connection refusing_answer
      parse_refusal)

section \<open>The claims\<close>

subsection \<open>C1: what the required-field checks accept\<close>

text \<open>
  Claim C1, as the code has it. The check of \<^verbatim>\<open>evaluateAIIdea\<close> is presence and
  non-null only: it stops at the first required key that is absent or bound to null, with
  an error that names the key, and accepts every other value (an empty string, 0, a value
  of another type). The check of \<^verbatim>\<open>generateAIIdea\<close> is \<^verbatim>\<open>!ideaData[field]\<close>: it stops
  at the first required key that is absent or bound to a falsy value, which besides null
  is \<^verbatim>\<open>false\<close>, the empty string, 0, -0 and NaN.
\<close>

theorem required_field_checks:
  "validate_evaluation_fields req obj =
     (case find (\<lambda>f. map_of obj f = None \<or> map_of obj f = Some JNull) req of
        None \<Rightarrow> Inr ()
      | Some f \<Rightarrow> Inl (Error (''Missing required evaluation field: '' @ f))) \<and>
   validate_idea_fields req obj =
     (case find (\<lambda>f. map_of obj f \<in> {None, Some JNull, Some (JBool False), Some (JStr []),
                       Some (JNum (Finite 0)), Some (JNum NegZero), Some (JNum NaN)}) req of
        None \<Rightarrow> Inr ()
      | Some f \<Rightarrow> Inl (Error (''Missing required field: '' @ f)))"
proof -
  have "(\<lambda>f. \<not> truthy (map_of obj f)) =
        (\<lambda>f. map_of obj f \<in> {None, Some JNull, Some (JBool False), Some (JStr []),
                       Some (JNum (Finite 0)), Some (JNum NegZero), Some (JNum NaN)})"
    by (auto simp: truthy_iff nullish_def)
  then show ?thesis
    using validate_evaluation_fields_find [of req obj] validate_idea_fields_find [of req obj]
    by (simp add: nullish_def)
qed

text \<open>
  Claim C1 on the samples: the evaluation whose overall score is 0 and whose market
  analysis is the empty string passes the check of \<^verbatim>\<open>evaluateAIIdea\<close>, and the object
  whose title is null fails both checks at the title.
\<close>

theorem required_field_checks_witness:
  "validate_evaluation_fields requiredFields_evaluation sample_evaluation_object = Inr () \<and>
   validate_evaluation_fields requiredFields_idea null_title_object =
     Inl (Error ''Missing required evaluation field: title'') \<and>
   validate_idea_fields requiredFields_idea null_title_object =
     Inl (Error ''Missing required field: title'')"
  using required_field_checks [of requiredFields_evaluation sample_evaluation_object]
    required_field_checks [of requiredFields_idea null_title_object]
  by (simp add: requiredFields_evaluation_def requiredFields_idea_def sample_evaluation_object_def
      null_title_object_def)

text \<open>
  Claim C1 as stated fails in \<^verbatim>\<open>generateAIIdea\<close>: every required key of this object is
  bound to a string, none to null, and the check rejects it, because the title is the
  empty string.
\<close>

theorem empty_title_is_rejected:
  "map_of empty_title_object ''title'' = Some (JStr []) \<and>
   map_of empty_title_object ''description'' = Some (JStr ''D'') \<and>
   map_of empty_title_object ''category'' = Some (JStr ''C'') \<and>
   map_of empty_title_object ''targetMarket'' = Some (JStr ''M'') \<and>
   map_of empty_title_object ''problem'' = Some (JStr ''P'') \<and>
   map_of empty_title_object ''solution'' = Some (JStr ''S'') \<and>
   validate_idea_fields requiredFields_idea empty_title_object =
     Inl (Error ''Missing required field: title'')"
  by (simp add: empty_title_object_def requiredFields_idea_def)

subsection \<open>C2: the span from the first opening brace to the last closing brace\<close>

text \<open>
  Claim C2. The match on a cleaned text is the span from its first opening brace to its
  last closing brace, whatever stands before and after it, and in particular the outer span
  when the text has two brace-delimited regions; there is no match exactly when no
  opening brace is followed by a closing brace. Both handlers hand the match to the JSON
  parser, and when there is none they throw an error whose message is the
  no-JSON-found text followed by the cleaned text.
\<close>

theorem json_span_first_to_last:
  "(match_json t = Some m \<longleftrightarrow>
      (\<exists>pre mid post. t = pre @ m @ post \<and> m = ''{'' @ mid @ ''}''
         \<and> CHR ''{'' \<notin> set pre \<and> CHR ''}'' \<notin> set post)) \<and>
   (match_json t = None \<longleftrightarrow> (\<nexists>a b c. t = a @ ''{'' @ b @ ''}'' @ c)) \<and>
   (match_json (clean_text raw) = Some m \<longrightarrow>
      parse_idea_with req e raw =
        (case json_parse e m of
           Inl err \<Rightarrow> Inl err
         | Inr obj \<Rightarrow> (case validate_idea_fields req obj of Inl err \<Rightarrow> Inl err | Inr u \<Rightarrow> Inr obj)) \<and>
      parse_evaluation_with req e raw =
        (case json_parse e m of
           Inl err \<Rightarrow> Inl err
         | Inr obj \<Rightarrow> (case validate_evaluation_fields req obj of Inl err \<Rightarrow> Inl err | Inr u \<Rightarrow> Inr obj))) \<and>
   (match_json (clean_text raw) = None \<longrightarrow>
      parse_idea_with req e raw =
        Inl (Error (''No valid JSON found in response: '' @ clean_text raw)) \<and>
      parse_evaluation_with req e raw =
        Inl (Error (''No valid JSON found in evaluation response: '' @ clean_text raw)))"
  using match_json_Some [of t m] match_json_None [of t]
  by (simp add: parse_idea_with_def parse_evaluation_with_def Let_def)

text \<open>
  Claim C2 on three texts: one with two brace-delimited regions between words, whose match
  is the outer span; the sample evaluation between two sentences, whose match is the
  object; and the text without braces of the specification.
\<close>

theorem json_span_first_to_last_witness:
  "match_json ''a {1} b {2} c'' = Some ''{1} b {2}'' \<and>
   match_json (clean_text sample_evaluation_text) = Some sample_evaluation_json \<and>
   parse_evaluation_with requiredFields_evaluation sample_env sample_evaluation_text =
     Inr sample_evaluation_object \<and>
   match_json (clean_text ''no json here'') = None \<and>
   parse_idea_with requiredFields_idea sample_env ''no json here'' =
     Inl (Error ''No valid JSON found in response: no json here'') \<and>
   parse_evaluation_with requiredFields_evaluation sample_env ''no json here'' =
     Inl (Error ''No valid JSON found in evaluation response: no json here'')"
proof -
  have c: "clean_text ''no json here'' = ''no json here''"
    by (simp add: string_defs)
  have m1: "match_json ''a {1} b {2} c'' = Some ''{1} b {2}''"
    and m2: "match_json ''no json here'' = None"
    by simp_all
  have m3: "match_json (clean_text sample_evaluation_text) = Some sample_evaluation_json"
    by (simp add: clean_sample_evaluation_text match_sample_evaluation_text)
  have p: "json_parse sample_env sample_evaluation_json = Inr sample_evaluation_object"
    by (simp add: sample_defs)
  have v: "validate_evaluation_fields requiredFields_evaluation sample_evaluation_object = Inr ()"
    by (simp add: requiredFields_evaluation_def sample_evaluation_object_def nullish_def)
  have t: "parse_evaluation_with requiredFields_evaluation sample_env sample_evaluation_text =
      (case json_parse sample_env sample_evaluation_json of
         Inl err \<Rightarrow> Inl err
       | Inr obj \<Rightarrow>
           (case validate_evaluation_fields requiredFields_evaluation obj of
              Inl err \<Rightarrow> Inl err
            | Inr u \<Rightarrow> Inr obj))"
    using json_span_first_to_last [of "[]" sample_evaluation_json
        sample_evaluation_text requiredFields_evaluation sample_env] m3
    by blast
  have n: "parse_idea_with requiredFields_idea sample_env ''no json here'' =
      Inl (Error (''No valid JSON found in response: '' @ clean_text ''no json here''))"
    "parse_evaluation_with requiredFields_evaluation sample_env ''no json here'' =
      Inl (Error (''No valid JSON found in evaluation response: '' @ clean_text ''no json here''))"
    using json_span_first_to_last [of "[]" "[]" "''no json here''" requiredFields_idea sample_env]
      json_span_first_to_last [of "[]" "[]" "''no json here''" requiredFields_evaluation
        sample_env] m2
    unfolding c
    by blast+
  show ?thesis
    unfolding t n
    by (simp add: m1 m2 m3 p v c)
qed

subsection \<open>C3: the fences\<close>

text \<open>
  Claim C3. After trimming, a text that begins with the json-tagged fence marker loses
  that marker and a fence marker that ends the text; otherwise a text that begins with
  the plain fence marker loses that pair instead; any other text is left as it is. The
  line break after the opening marker and the one before the closing marker go with the
  markers. What remains is one contiguous piece of the trimmed text, so at most one pair
  is removed and the content between the markers is untouched.
\<close>

theorem clean_text_strips_one_fence_pair:
  "clean_text raw = strip_fences_spec (trim raw) \<and>
   (\<exists>opening closing.
      trim raw = opening @ clean_text raw @ closing \<and>
      (if prefix ''```json'' (trim raw) then
         opening \<in> {''```json'', ''```json'' @ nl} \<and> closing \<in> {[], ''```'', nl @ ''```''}
       else if prefix ''```'' (trim raw) then
         opening \<in> {''```'', ''```'' @ nl} \<and> closing \<in> {[], ''```'', nl @ ''```''}
       else opening = [] \<and> closing = []))"
  using strip_fences_spec_decomp [of "trim raw"]
  by (simp only: clean_text_spec simp_thms)

text \<open>
  Claim C3 on the fenced sample and on a text of two nested fence pairs, of which the
  outer one is removed.
\<close>

theorem clean_text_strips_one_fence_pair_witness:
  "clean_text sample_idea_text = sample_idea_json \<and>
   strip_fences_spec (trim sample_idea_text) = sample_idea_json \<and>
   clean_text (''  ```'' @ nl @ ''```json'' @ nl @ ''{}'' @ nl @ ''```'' @ nl @ ''```'' @ nl) =
     ''```json'' @ nl @ ''{}'' @ nl @ ''```''"
  using clean_text_strips_one_fence_pair [of sample_idea_text]
  by (simp add: clean_sample_idea_text) (simp add: string_defs)

subsection \<open>C4: a new idea clears the evaluation\<close>




subsection \<open>C5: a failed round trip changes neither the idea nor the evaluation\<close>

text \<open>
  Claim C5, as the code has it. When a round trip that was started (the credential is
  set and, for an evaluation, an idea is present) fails, the handler returns with the
  idea and the evaluation as they were, with its in-flight flag false, with the details
  of the thrown error (message, name, status and status text) in the diagnostic slot, and
  with a display message in the error slot. The display message is chosen by the text of
  the thrown error's message and by nothing else, whichever step threw it: the first of
  the markers \<^verbatim>\<open>API_KEY_INVALID\<close>, \<^verbatim>\<open>PERMISSION_DENIED\<close>, \<^verbatim>\<open>QUOTA_EXCEEDED\<close> and
  \<^verbatim>\<open>Failed to fetch\<close> that occurs in it selects a fixed sentence; failing these, in a
  generation, a message in which \<^verbatim>\<open>API Connection Failed\<close> occurs is shown with its
  leftmost \<^verbatim>\<open>API Connection Failed: \<close> removed; any other message is shown after
  \<^verbatim>\<open>Error: \<close>, and \<^verbatim>\<open>Unknown error occurred\<close> stands in for a message that is missing
  or empty. After every run of a handler its in-flight flag is false, unless the run was
  stopped by the guard before the round trip began, which leaves the flag as it was.
\<close>

theorem round_trip_failure_message:
  "(trim (apiKey s) \<noteq> [] \<and> generate_outcome e s = Inl err \<longrightarrow>
      (\<exists>shown.
         error (fst (generateAIIdea e s)) = ''Failed to generate idea. '' @ shown \<and>
         (case message err of
            None \<Rightarrow> shown = ''Error: Unknown error occurred''
          | Some m \<Rightarrow>
              if sublist ''API_KEY_INVALID'' m then
                shown = ''Invalid API key. Please check your Gemini API key.''
              else if sublist ''PERMISSION_DENIED'' m then
                shown = ''Permission denied. Please ensure your API key has the correct permissions.''
              else if sublist ''QUOTA_EXCEEDED'' m then
                shown = ''API quota exceeded. Please check your usage limits.''
              else if sublist ''Failed to fetch'' m then
                shown = ''Network error. Please check your internet connection.''
              else if sublist ''API Connection Failed'' m then
                (\<forall>pre post.
                   m = pre @ ''API Connection Failed: '' @ post \<and>
                   (\<forall>pre' post'. m = pre' @ ''API Connection Failed: '' @ post' \<longrightarrow>
                      length pre \<le> length pre') \<longrightarrow>
                   shown = pre @ post) \<and>
                (\<not> sublist ''API Connection Failed: '' m \<longrightarrow> shown = m)
              else if m = [] then shown = ''Error: Unknown error occurred''
              else shown = ''Error: '' @ m)) \<and>
      debugInfo (fst (generateAIIdea e s)) =
        ''Error details: '' @
        json_stringify_pretty e
          [(''message'', map_option JStr (message err)), (''name'', map_option JStr (name err)),
           (''status'', status err), (''statusText'', statusText err)] \<and>
      currentIdea (fst (generateAIIdea e s)) = currentIdea s \<and>
      evaluation (fst (generateAIIdea e s)) = evaluation s \<and>
      \<not> isGenerating (fst (generateAIIdea e s))) \<and>
   (trim (apiKey s) \<noteq> [] \<and> currentIdea s = Some idea \<and> evaluate_outcome e idea s = Inl err \<longrightarrow>
      (\<exists>shown.
         error (fst (evaluateAIIdea e s)) = ''Failed to evaluate idea. '' @ shown \<and>
         (case message err of
            None \<Rightarrow> shown = ''Error: Unknown error occurred''
          | Some m \<Rightarrow>
              if sublist ''API_KEY_INVALID'' m then
                shown = ''Invalid API key. Please check your Gemini API key.''
              else if sublist ''PERMISSION_DENIED'' m then
                shown = ''Permission denied. Please ensure your API key has the correct permissions.''
              else if sublist ''QUOTA_EXCEEDED'' m then
                shown = ''API quota exceeded. Please check your usage limits.''
              else if sublist ''Failed to fetch'' m then
                shown = ''Network error. Please check your internet connection.''
              else if m = [] then shown = ''Error: Unknown error occurred''
              else shown = ''Error: '' @ m)) \<and>
      debugInfo (fst (evaluateAIIdea e s)) =
        ''Evaluation error details: '' @
        json_stringify_pretty e
          [(''message'', map_option JStr (message err)), (''name'', map_option JStr (name err)),
           (''status'', status err), (''statusText'', statusText err)] \<and>
      currentIdea (fst (evaluateAIIdea e s)) = currentIdea s \<and>
      evaluation (fst (evaluateAIIdea e s)) = evaluation s \<and>
      \<not> isEvaluating (fst (evaluateAIIdea e s))) \<and>
   isGenerating (fst (generateAIIdea e s)) = (trim (apiKey s) = [] \<and> isGenerating s) \<and>
   isEvaluating (fst (evaluateAIIdea e s)) =
     ((currentIdea s = None \<or> trim (apiKey s) = []) \<and> isEvaluating s)"
proof (intro conjI impI)
  assume a: "trim (apiKey s) \<noteq> [] \<and> generate_outcome e s = Inl err"
  then have f: "error (fst (generateAIIdea e s)) = generate_errorMessage err \<and>
      debugInfo (fst (generateAIIdea e s)) =
        ''Error details: '' @ json_stringify_pretty e (error_details err) \<and>
      currentIdea (fst (generateAIIdea e s)) = currentIdea s \<and>
      evaluation (fst (generateAIIdea e s)) = evaluation s \<and>
      \<not> isGenerating (fst (generateAIIdea e s))"
    using generate_failure [of s e err] by blast
  from f show "\<exists>shown.
      error (fst (generateAIIdea e s)) = ''Failed to generate idea. '' @ shown \<and>
      (case message err of
         None \<Rightarrow> shown = ''Error: Unknown error occurred''
       | Some m \<Rightarrow>
           if sublist ''API_KEY_INVALID'' m then
             shown = ''Invalid API key. Please check your Gemini API key.''
           else if sublist ''PERMISSION_DENIED'' m then
             shown = ''Permission denied. Please ensure your API key has the correct permissions.''
           else if sublist ''QUOTA_EXCEEDED'' m then
             shown = ''API quota exceeded. Please check your usage limits.''
           else if sublist ''Failed to fetch'' m then
             shown = ''Network error. Please check your internet connection.''
           else if sublist ''API Connection Failed'' m then
             (\<forall>pre post.
                m = pre @ ''API Connection Failed: '' @ post \<and>
                (\<forall>pre' post'. m = pre' @ ''API Connection Failed: '' @ post' \<longrightarrow>
                   length pre \<le> length pre') \<longrightarrow>
                shown = pre @ post) \<and>
             (\<not> sublist ''API Connection Failed: '' m \<longrightarrow> shown = m)
           else if m = [] then shown = ''Error: Unknown error occurred''
           else shown = ''Error: '' @ m)"
    using generate_errorMessage_classes [of err] by (simp only:)
  from f show "debugInfo (fst (generateAIIdea e s)) =
      ''Error details: '' @
      json_stringify_pretty e
        [(''message'', map_option JStr (message err)), (''name'', map_option JStr (name err)),
         (''status'', status err), (''statusText'', statusText err)]"
    by (simp only: error_details_def)
  from f show "currentIdea (fst (generateAIIdea e s)) = currentIdea s"
    and "evaluation (fst (generateAIIdea e s)) = evaluation s"
    and "\<not> isGenerating (fst (generateAIIdea e s))"
    by blast+
next
  assume a: "trim (apiKey s) \<noteq> [] \<and> currentIdea s = Some idea \<and>
    evaluate_outcome e idea s = Inl err"
  then have f: "error (fst (evaluateAIIdea e s)) = evaluate_errorMessage err \<and>
      debugInfo (fst (evaluateAIIdea e s)) =
        ''Evaluation error details: '' @ json_stringify_pretty e (error_details err) \<and>
      currentIdea (fst (evaluateAIIdea e s)) = currentIdea s \<and>
      evaluation (fst (evaluateAIIdea e s)) = evaluation s \<and>
      \<not> isEvaluating (fst (evaluateAIIdea e s))"
    using evaluate_failure [of s idea e err] by blast
  from f show "\<exists>shown.
      error (fst (evaluateAIIdea e s)) = ''Failed to evaluate idea. '' @ shown \<and>
      (case message err of
         None \<Rightarrow> shown = ''Error: Unknown error occurred''
       | Some m \<Rightarrow>
           if sublist ''API_KEY_INVALID'' m then
             shown = ''Invalid API key. Please check your Gemini API key.''
           else if sublist ''PERMISSION_DENIED'' m then
             shown = ''Permission denied. Please ensure your API key has the correct permissions.''
           else if sublist ''QUOTA_EXCEEDED'' m then
             shown = ''API quota exceeded. Please check your usage limits.''
           else if sublist ''Failed to fetch'' m then
             shown = ''Network error. Please check your internet connection.''
           else if m = [] then shown = ''Error: Unknown error occurred''
           else shown = ''Error: '' @ m)"
    using evaluate_errorMessage_classes [of err] by (simp only:)
  from f show "debugInfo (fst (evaluateAIIdea e s)) =
      ''Evaluation error details: '' @
      json_stringify_pretty e
        [(''message'', map_option JStr (message err)), (''name'', map_option JStr (name err)),
         (''status'', status err), (''statusText'', statusText err)]"
    by (simp only: error_details_def)
  from f show "currentIdea (fst (evaluateAIIdea e s)) = currentIdea s"
    and "evaluation (fst (evaluateAIIdea e s)) = evaluation s"
    and "\<not> isEvaluating (fst (evaluateAIIdea e s))"
    by blast+
next
  show "isGenerating (fst (generateAIIdea e s)) = (trim (apiKey s) = [] \<and> isGenerating s)"
    by (rule generate_flag)
  show "isEvaluating (fst (evaluateAIIdea e s)) =
     ((currentIdea s = None \<or> trim (apiKey s) = []) \<and> isEvaluating s)"
    by (rule evaluate_flag)
qed

text \<open>
  Claim C5, as the code has it, on the sample state with the network down: the request of
  the evaluation and the connection test of the generation throw, and both handlers
  report a network error and keep the idea and the evaluation.
\<close>

theorem round_trip_failure_message_witness:
  "trim (apiKey sample_state) \<noteq> [] \<and>
   currentIdea sample_state = Some (newIdea sample_env sample_idea_object) \<and>
   generate_outcome offline_env sample_state =
     Inl (Error ''API Connection Failed: Failed to fetch'') \<and>
   evaluate_outcome offline_env (newIdea sample_env sample_idea_object) sample_state =
     Inl fetch_error \<and>
   error (fst (generateAIIdea offline_env sample_state)) =
     ''Failed to generate idea. Network error. Please check your internet connection.'' \<and>
   currentIdea (fst (generateAIIdea offline_env sample_state)) = currentIdea sample_state \<and>
   evaluation (fst (generateAIIdea offline_env sample_state)) = evaluation sample_state \<and>
   \<not> isGenerating (fst (generateAIIdea offline_env sample_state)) \<and>
   error (fst (evaluateAIIdea offline_env sample_state)) =
     ''Failed to evaluate idea. Network error. Please check your internet connection.'' \<and>
   currentIdea (fst (evaluateAIIdea offline_env sample_state)) = currentIdea sample_state \<and>
   evaluation (fst (evaluateAIIdea offline_env sample_state)) = evaluation sample_state \<and>
   \<not> isEvaluating (fst (evaluateAIIdea offline_env sample_state))"
proof -
  have k: "trim (apiKey sample_state) \<noteq> []"
    by (simp add: sample_key)
  have i: "currentIdea sample_state = Some (newIdea sample_env sample_idea_object)"
    by (rule sample_idea)
  have g: "generate_outcome offline_env sample_state =
      Inl (Error ''API Connection Failed: Failed to fetch'')"
    by (simp add: generate_outcome_def generate_try_def testApiConnection_def offline_env_def
        sample_env_def fetch_error_def or_else_def)
  have v: "evaluate_outcome offline_env (newIdea sample_env sample_idea_object) sample_state =
      Inl fetch_error"
    by (simp add: evaluate_outcome_def evaluate_try_def offline_env_def sample_env_def)
  have mg: "message (Error ''API Connection Failed: Failed to fetch'') =
      Some ''API Connection Failed: Failed to fetch''"
    by (simp add: Error_def)
  have mv: "message fetch_error = Some ''Failed to fetch''"
    by (simp add: fetch_error_def)
  have sg: "\<not> sublist ''API_KEY_INVALID'' ''API Connection Failed: Failed to fetch''"
    "\<not> sublist ''PERMISSION_DENIED'' ''API Connection Failed: Failed to fetch''"
    "\<not> sublist ''QUOTA_EXCEEDED'' ''API Connection Failed: Failed to fetch''"
    "sublist ''Failed to fetch'' ''API Connection Failed: Failed to fetch''"
    by (simp_all add: str_includes_sublist [symmetric] starts_with_def)
  have sv: "\<not> sublist ''API_KEY_INVALID'' ''Failed to fetch''"
    "\<not> sublist ''PERMISSION_DENIED'' ''Failed to fetch''"
    "\<not> sublist ''QUOTA_EXCEEDED'' ''Failed to fetch''"
    "sublist ''Failed to fetch'' ''Failed to fetch''"
    by (simp_all add: str_includes_sublist [symmetric] starts_with_def)
  have tg: "error (fst (generateAIIdea offline_env sample_state)) =
      ''Failed to generate idea. Network error. Please check your internet connection.'' \<and>
    currentIdea (fst (generateAIIdea offline_env sample_state)) = currentIdea sample_state \<and>
    evaluation (fst (generateAIIdea offline_env sample_state)) = evaluation sample_state \<and>
    \<not> isGenerating (fst (generateAIIdea offline_env sample_state))"
    using round_trip_failure_message
      [of sample_state offline_env "Error ''API Connection Failed: Failed to fetch''"
        "newIdea sample_env sample_idea_object"] k g
    unfolding mg option.case
    by (simp only: sg if_True if_False) auto
  have tv: "error (fst (evaluateAIIdea offline_env sample_state)) =
      ''Failed to evaluate idea. Network error. Please check your internet connection.'' \<and>
    currentIdea (fst (evaluateAIIdea offline_env sample_state)) = currentIdea sample_state \<and>
    evaluation (fst (evaluateAIIdea offline_env sample_state)) = evaluation sample_state \<and>
    \<not> isEvaluating (fst (evaluateAIIdea offline_env sample_state))"
    using round_trip_failure_message
      [of sample_state offline_env fetch_error "newIdea sample_env sample_idea_object"] k i v
    unfolding mv option.case
    by (simp only: sv if_True if_False) auto
  from k i g v tg tv show ?thesis
    by blast
qed

text \<open>
  Claim C5 as stated fails: the message in the error slot need not name the failure that
  happened. Here the connection test and the request succeed, and the model answers in
  plain words; the parse step throws, since the answer holds no brace-delimited span.
  The message of that error quotes the answer, the answer holds the marker of a quota
  error, and the error slot reports an exceeded quota.
\<close>

theorem refusal_shown_as_quota_error:
  "trim (apiKey sample_state) \<noteq> [] \<and>
   testApiConnection refusing_env (apiKey sample_state) = ConnOk ''API connection successful'' \<and>
   generateContent refusing_env (idea_request sample_state) =
     Inr ''QUOTA_EXCEEDED is a common error'' \<and>
   generate_outcome refusing_env sample_state =
     Inl (Error ''No valid JSON found in response: QUOTA_EXCEEDED is a common error'') \<and>
   error (fst (generateAIIdea refusing_env sample_state)) =
     ''Failed to generate idea. API quota exceeded. Please check your usage limits.''"
proof -
  have k: "trim (apiKey sample_state) \<noteq> []"
    by (simp add: sample_key)
  have m: "generate_errorMessage
      (Error ''No valid JSON found in response: QUOTA_EXCEEDED is a common error'') =
      ''Failed to generate idea. API quota exceeded. Please check your usage limits.''"
    by (simp add: generate_errorMessage_def message_includes_def Error_def starts_with_def)
  from generate_failure [OF k refusal_outcome] k refusing_connection refusing_answer
    refusal_outcome
  show ?thesis
    unfolding m by simp
qed

subsection \<open>C6: no re-entrancy guard in the handlers\<close>

text \<open>
  Claim C6, as the code has it. The handlers do not read their in-flight flags: when the
  credential is set (and, for an evaluation, an idea is present), a handler invoked while
  its flag is true runs the round trip it runs while the flag is false, with the same
  requests and the same final state. Only the presentation layer, which disables the
  buttons, prevents a second run.
\<close>

theorem no_reentrancy_guard:
  "(trim (apiKey s) \<noteq> [] \<longrightarrow>
      generateAIIdea e (s\<lparr>isGenerating := True\<rparr>) = generateAIIdea e (s\<lparr>isGenerating := False\<rparr>)) \<and>
   (trim (apiKey s) \<noteq> [] \<and> currentIdea s \<noteq> None \<longrightarrow>
      evaluateAIIdea e (s\<lparr>isEvaluating := True\<rparr>) = evaluateAIIdea e (s\<lparr>isEvaluating := False\<rparr>))"
  by (auto simp: generateAIIdea_def evaluateAIIdea_def generate_begin_flag evaluate_begin_flag)

text \<open>Claim C6, as the code has it, on the sample state.\<close>

theorem no_reentrancy_guard_witness:
  "trim (apiKey sample_state) \<noteq> [] \<and> currentIdea sample_state \<noteq> None \<and>
   generateAIIdea sample_env (sample_state\<lparr>isGenerating := True\<rparr>) =
     generateAIIdea sample_env (sample_state\<lparr>isGenerating := False\<rparr>) \<and>
   evaluateAIIdea sample_env (sample_state\<lparr>isEvaluating := True\<rparr>) =
     evaluateAIIdea sample_env (sample_state\<lparr>isEvaluating := False\<rparr>)"
proof -
  have k: "trim (apiKey sample_state) \<noteq> []"
    by (simp add: sample_key)
  have i: "currentIdea sample_state \<noteq> None"
    by (simp add: sample_idea)
  show ?thesis
    using no_reentrancy_guard [of sample_state sample_env] k i
    by blast
qed

text \<open>
  Claim C6 as stated fails: in the state in which a generation and an evaluation have both
  been started, each handler invoked again performs transitions. It sends its requests,
  two for a generation and one for an evaluation, and sets its flag to false while the
  first round trip is still in flight.
\<close>

theorem reentrant_call_runs:
  "isGenerating busy_state \<and> isEvaluating busy_state \<and>
   \<not> isGenerating (fst (generateAIIdea sample_env busy_state)) \<and>
   length (snd (generateAIIdea sample_env busy_state)) = 2 \<and>
   \<not> isEvaluating (fst (evaluateAIIdea sample_env busy_state)) \<and>
   length (snd (evaluateAIIdea sample_env busy_state)) = 1"
  unfolding busy_generate busy_evaluate
  by (simp add: busy_flags)

subsection \<open>C7: no credential\<close>

text \<open>
  Claim C7. In every state whose credential is empty or blank, neither handler sends a
  request and neither sets the error slot, so the error box shows what it showed:
  \<^verbatim>\<open>generateAIIdea\<close> opens the credential dialog (line 436) and changes nothing else, and
  \<^verbatim>\<open>evaluateAIIdea\<close> changes nothing. In every state with no credential, before and
  after either handler, the status badge of the page reads \<^verbatim>\<open>API Key Required\<close>, which
  it reads in no state that has a credential.
\<close>

theorem missing_credential_blocks_and_shows:
  "(trim (apiKey s) = [] \<longrightarrow>
      generateAIIdea e s = (s\<lparr>showApiKeyInput := True\<rparr>, []) \<and>
      evaluateAIIdea e s = (s, []) \<and>
      errorBox (fst (generateAIIdea e s)) = errorBox s \<and>
      errorBox (fst (evaluateAIIdea e s)) = errorBox s) \<and>
   (apiKey s = [] \<longrightarrow>
      apiKeyStatus s = ''API Key Required'' \<and>
      apiKeyStatus (fst (generateAIIdea e s)) = ''API Key Required'' \<and>
      apiKeyStatus (fst (evaluateAIIdea e s)) = ''API Key Required'') \<and>
   (apiKey s \<noteq> [] \<longrightarrow> apiKeyStatus s = ''Gemini AI Connected'')"
proof (intro conjI impI)
  assume t: "trim (apiKey s) = []"
  note b = blocked_without_key [OF t, of e]
  from b show "generateAIIdea e s = (s\<lparr>showApiKeyInput := True\<rparr>, [])"
    and "evaluateAIIdea e s = (s, [])"
    by simp_all
  from b show "errorBox (fst (generateAIIdea e s)) = errorBox s"
    and "errorBox (fst (evaluateAIIdea e s)) = errorBox s"
    by (simp_all add: errorBox_def)
next
  assume k: "apiKey s = []"
  then have t: "trim (apiKey s) = []"
    by (simp add: trim_def)
  note b = blocked_without_key [OF t, of e]
  from k show "apiKeyStatus s = ''API Key Required''"
    by (simp add: apiKeyStatus_def)
  from b k show "apiKeyStatus (fst (generateAIIdea e s)) = ''API Key Required''"
    and "apiKeyStatus (fst (evaluateAIIdea e s)) = ''API Key Required''"
    by (simp_all add: apiKeyStatus_def)
next
  assume "apiKey s \<noteq> []"
  then show "apiKeyStatus s = ''Gemini AI Connected''"
    by (simp add: apiKeyStatus_def)
qed

text \<open>
  Claim C7 on the state with an idea and no credential that \<^verbatim>\<open>clearApiKey\<close> makes of
  the sample state, and on the sample state, which has a credential.
\<close>

theorem missing_credential_blocks_and_shows_witness:
  "trim (apiKey no_key_state) = [] \<and> apiKey no_key_state = [] \<and>
   currentIdea no_key_state \<noteq> None \<and>
   \<not> showApiKeyInput no_key_state \<and>
   errorBox no_key_state = None \<and>
   generateAIIdea sample_env no_key_state = (no_key_state\<lparr>showApiKeyInput := True\<rparr>, []) \<and>
   evaluateAIIdea sample_env no_key_state = (no_key_state, []) \<and>
   errorBox (fst (generateAIIdea sample_env no_key_state)) = None \<and>
   errorBox (fst (evaluateAIIdea sample_env no_key_state)) = None \<and>
   apiKeyStatus (fst (generateAIIdea sample_env no_key_state)) = ''API Key Required'' \<and>
   apiKeyStatus (fst (evaluateAIIdea sample_env no_key_state)) = ''API Key Required'' \<and>
   apiKey sample_state \<noteq> [] \<and>
   apiKeyStatus sample_state = ''Gemini AI Connected''"
proof -
  have s: "no_key_state =
      sample_state\<lparr>apiKey := [], tempApiKey := [], error := [], debugInfo := []\<rparr>"
    by (simp add: no_key_state_def clearApiKey_def)
  have k: "apiKey no_key_state = []"
    by (simp add: s)
  have i: "currentIdea no_key_state \<noteq> None \<and> \<not> showApiKeyInput no_key_state \<and>
      errorBox no_key_state = None"
    by (simp add: s sample_state_eq initial_state_def errorBox_def)
  have c: "apiKey sample_state \<noteq> []"
    by (simp add: sample_state_eq initial_state_def)
  have n: "generateAIIdea sample_env no_key_state = (no_key_state\<lparr>showApiKeyInput := True\<rparr>, []) \<and>
      evaluateAIIdea sample_env no_key_state = (no_key_state, []) \<and>
      errorBox (fst (generateAIIdea sample_env no_key_state)) = errorBox no_key_state \<and>
      errorBox (fst (evaluateAIIdea sample_env no_key_state)) = errorBox no_key_state \<and>
      apiKeyStatus (fst (generateAIIdea sample_env no_key_state)) = ''API Key Required'' \<and>
      apiKeyStatus (fst (evaluateAIIdea sample_env no_key_state)) = ''API Key Required''"
    using missing_credential_blocks_and_shows [of no_key_state sample_env] no_key k
    by blast
  have p: "apiKeyStatus sample_state = ''Gemini AI Connected''"
    using missing_credential_blocks_and_shows [of sample_state sample_env] c
    by blast
  have b: "errorBox no_key_state = None"
    using i by blast
  from n p no_key k i c show ?thesis
    unfolding b by blast
qed

subsection \<open>C8: a match that is not JSON\<close>

text \<open>
  Claim C8, as the code has it. When the JSON parser throws on the match, both handlers
  throw that very error, with the parser's message and nothing added to it, and the
  required fields are not looked at: the result is the same for every list of required
  fields.
\<close>

theorem malformed_json_short_circuits:
  "match_json (clean_text raw) = Some m \<and> json_parse e m = Inl err \<longrightarrow>
     parse_idea_with req e raw = Inl err \<and> parse_evaluation_with req e raw = Inl err"
  by (simp add: parse_idea_with_def parse_evaluation_with_def Let_def)

text \<open>Claim C8, as the code has it, on the text that is not JSON.\<close>

theorem malformed_json_short_circuits_witness:
  "match_json (clean_text malformed_json) = Some malformed_json \<and>
   json_parse sample_env malformed_json =
     Inl (SyntaxError ''Unexpected token a in JSON at position 1'') \<and>
   parse_idea_with requiredFields_idea sample_env malformed_json =
     Inl (SyntaxError ''Unexpected token a in JSON at position 1'') \<and>
   parse_evaluation_with requiredFields_evaluation sample_env malformed_json =
     Inl (SyntaxError ''Unexpected token a in JSON at position 1'')"
proof -
  have m: "match_json (clean_text malformed_json) = Some malformed_json"
    by (simp add: malformed_json_def string_defs)
  have p: "json_parse sample_env malformed_json =
      Inl (SyntaxError ''Unexpected token a in JSON at position 1'')"
    by (simp add: sample_defs)
  show ?thesis
    using malformed_json_short_circuits [of malformed_json malformed_json sample_env
        "SyntaxError ''Unexpected token a in JSON at position 1''" requiredFields_idea]
      malformed_json_short_circuits [of malformed_json malformed_json sample_env
        "SyntaxError ''Unexpected token a in JSON at position 1''" requiredFields_evaluation]
      m p
    by simp
qed

text \<open>
  Claim C8 as stated fails: on the text that is not JSON the thrown error is the parser's,
  and neither its message nor the message put into the error slot contains the offending
  text.
\<close>

theorem malformed_json_error_lacks_text:
  "parse_idea sample_env malformed_json =
     Inl (SyntaxError ''Unexpected token a in JSON at position 1'') \<and>
   \<not> str_includes ''Unexpected token a in JSON at position 1'' malformed_json \<and>
   error (fst (generateAIIdea garbled_env sample_state)) =
     ''Failed to generate idea. Error: Unexpected token a in JSON at position 1'' \<and>
   \<not> str_includes (error (fst (generateAIIdea garbled_env sample_state))) malformed_json"
proof -
  have k: "trim (apiKey sample_state) \<noteq> []"
    by (simp add: sample_key)
  have m: "match_json (clean_text malformed_json) = Some malformed_json"
    by (simp add: malformed_json_def string_defs)
  have q: "parse_idea sample_env malformed_json =
      Inl (SyntaxError ''Unexpected token a in JSON at position 1'')"
    unfolding parse_idea_def parse_idea_with_def Let_def m
    by (simp add: sample_defs)
  have q': "parse_idea garbled_env malformed_json =
      Inl (SyntaxError ''Unexpected token a in JSON at position 1'')"
    unfolding parse_idea_def parse_idea_with_def Let_def m
    by (simp add: sample_defs)
  have gc: "generateContent garbled_env r = Inr malformed_json" for r
    by (simp add: garbled_env_def sample_env_def)
  have tc: "testApiConnection garbled_env k = ConnOk malformed_json" for k
    by (simp add: testApiConnection_def gc)
  have o: "generate_outcome garbled_env sample_state =
      Inl (SyntaxError ''Unexpected token a in JSON at position 1'')"
    by (simp add: generate_outcome_def generate_try_def tc gc q')
  have g: "generate_errorMessage (SyntaxError ''Unexpected token a in JSON at position 1'') =
      ''Failed to generate idea. Error: Unexpected token a in JSON at position 1''"
    by (simp add: generate_errorMessage_def message_includes_def SyntaxError_def starts_with_def
        or_else_def)
  have e: "error (fst (generateAIIdea garbled_env sample_state)) =
      ''Failed to generate idea. Error: Unexpected token a in JSON at position 1''"
    using generate_failure [OF k o] by (simp add: g)
  show ?thesis
    unfolding e q
    by (simp add: malformed_json_def starts_with_def)
qed

subsection \<open>C9: parsing the parsed object again\<close>

text \<open>
  Claim C9, as the code has it. When a text parses and validates to a record, and the
  runtime serializes the record to a brace-delimited text that its parser reads back as
  the same record, then that text parses and validates to the same record again, under
  the same list of required fields. The runtime reads back what it has written unless the
  record holds a number that is not finite.
\<close>

theorem parse_again_after_reserialization:
  "(parse_idea_with req e raw = Inr R \<and> stringify R = ''{'' @ body @ ''}'' \<and>
    json_parse e (stringify R) = Inr R \<longrightarrow>
      parse_idea_with req e (stringify R) = Inr R) \<and>
   (parse_evaluation_with req e raw = Inr R \<and> stringify R = ''{'' @ body @ ''}'' \<and>
    json_parse e (stringify R) = Inr R \<longrightarrow>
      parse_evaluation_with req e (stringify R) = Inr R)"
proof (intro conjI impI)
  assume a: "parse_idea_with req e raw = Inr R \<and> stringify R = ''{'' @ body @ ''}'' \<and>
    json_parse e (stringify R) = Inr R"
  then have v: "validate_idea_fields req R = Inr ()" by (blast intro: parse_idea_with_Inr)
  from a have c: "clean_text (stringify R) = stringify R"
    and m: "match_json (stringify R) = Some (stringify R)"
    using clean_text_braces [of body] match_json_braces [of body] by simp_all
  from a have p: "json_parse e (stringify R) = Inr R" by blast
  show "parse_idea_with req e (stringify R) = Inr R"
    by (rule parse_idea_with_object_text [OF c m p v])
next
  assume a: "parse_evaluation_with req e raw = Inr R \<and> stringify R = ''{'' @ body @ ''}'' \<and>
    json_parse e (stringify R) = Inr R"
  then have v: "validate_evaluation_fields req R = Inr ()"
    by (blast intro: parse_evaluation_with_Inr)
  from a have c: "clean_text (stringify R) = stringify R"
    and m: "match_json (stringify R) = Some (stringify R)"
    using clean_text_braces [of body] match_json_braces [of body] by simp_all
  from a have p: "json_parse e (stringify R) = Inr R" by blast
  show "parse_evaluation_with req e (stringify R) = Inr R"
    by (rule parse_evaluation_with_object_text [OF c m p v])
qed

text \<open>
  Claim C9, as the code has it, on the samples: the fenced idea and the evaluation between
  two sentences parse to their objects, and the serialized objects parse to the same
  objects again.
\<close>

theorem parse_again_after_reserialization_witness:
  "parse_idea_with requiredFields_idea sample_env sample_idea_text = Inr sample_idea_object \<and>
   sample_json_stringify sample_idea_object = sample_idea_json \<and>
   json_parse sample_env (sample_json_stringify sample_idea_object) = Inr sample_idea_object \<and>
   parse_idea_with requiredFields_idea sample_env (sample_json_stringify sample_idea_object) =
     Inr sample_idea_object \<and>
   parse_evaluation_with requiredFields_evaluation sample_env sample_evaluation_text =
     Inr sample_evaluation_object \<and>
   sample_json_stringify sample_evaluation_object = sample_evaluation_json \<and>
   json_parse sample_env (sample_json_stringify sample_evaluation_object) =
     Inr sample_evaluation_object \<and>
   parse_evaluation_with requiredFields_evaluation sample_env
     (sample_json_stringify sample_evaluation_object) = Inr sample_evaluation_object"
proof -
  have si: "sample_json_stringify sample_idea_object = sample_idea_json"
    by (simp add: sample_json_stringify_def)
  have sv: "sample_json_stringify sample_evaluation_object = sample_evaluation_json"
    by (simp add: sample_json_stringify_def sample_evaluation_object_def sample_idea_object_def)
  have bi: "sample_json_stringify sample_idea_object = ''{'' @ butlast (tl sample_idea_json) @ ''}''"
    unfolding si by (simp add: sample_idea_json_def)
  have bv: "sample_json_stringify sample_evaluation_object =
      ''{'' @ butlast (tl sample_evaluation_json) @ ''}''"
    unfolding sv by (simp add: sample_evaluation_json_def)
  have pi: "json_parse sample_env (sample_json_stringify sample_idea_object) = Inr sample_idea_object"
    unfolding si by (simp add: sample_env_def sample_json_parse_def)
  have pv: "json_parse sample_env (sample_json_stringify sample_evaluation_object) =
      Inr sample_evaluation_object"
    unfolding sv
    by (simp add: sample_env_def sample_json_parse_def sample_evaluation_json_def
        sample_idea_json_def)
  show ?thesis
    using parse_again_after_reserialization
      [of requiredFields_idea sample_env sample_idea_text sample_idea_object
        sample_json_stringify "butlast (tl sample_idea_json)"]
      parse_again_after_reserialization
      [of requiredFields_evaluation sample_env sample_evaluation_text sample_evaluation_object
        sample_json_stringify "butlast (tl sample_evaluation_json)"]
      parse_sample_idea parse_sample_evaluation si sv bi bv pi pv
    unfolding parse_idea_def parse_evaluation_def
    by simp
qed

text \<open>
  Claim C9 as stated fails: the idea whose title is the number literal 1e999 parses and
  validates, since the title is the truthy number Infinity; the record is serialized with
  the title null, and that text fails the check of the title.
\<close>

theorem infinite_number_is_not_read_back:
  "parse_idea sample_env overflow_json = Inr overflow_object \<and>
   sample_json_stringify overflow_object = null_title_json \<and>
   parse_idea sample_env (sample_json_stringify overflow_object) =
     Inl (Error ''Missing required field: title'')"
proof -
  have s: "sample_json_stringify overflow_object = null_title_json"
    by (simp add: sample_json_stringify_def overflow_object_def sample_idea_object_def
        sample_evaluation_object_def)
  have c1: "clean_text overflow_json = overflow_json"
    and c2: "clean_text null_title_json = null_title_json"
    by (simp_all add: overflow_json_def null_title_json_def string_defs)
  have m1: "match_json overflow_json = Some overflow_json"
    and m2: "match_json null_title_json = Some null_title_json"
    by (simp_all add: overflow_json_def null_title_json_def)
  have p1: "json_parse sample_env overflow_json = Inr overflow_object"
    and p2: "json_parse sample_env null_title_json = Inr null_title_object"
    by (simp_all add: sample_env_def sample_json_parse_def overflow_json_def null_title_json_def
        sample_idea_json_def sample_evaluation_json_def)
  show ?thesis
    unfolding s parse_idea_def parse_idea_with_def Let_def c1 c2 m1 m2
    by (simp add: p1 p2) (simp add: requiredFields_idea_def overflow_object_def null_title_object_def)
qed

subsection \<open>C10: an evaluation leaves the idea alone\<close>

text \<open>
  Claim C10. Whatever the state and whatever the outcome, after \<^verbatim>\<open>evaluateAIIdea\<close> the
  idea slot is as it was, and so are the credential, the credential input, the category
  and the generating flag: the handler writes the evaluation, the two evaluation flags,
  the error and the diagnostic only.
\<close>

theorem evaluation_keeps_idea:
  "currentIdea (fst (evaluateAIIdea e s)) = currentIdea s \<and>
   apiKey (fst (evaluateAIIdea e s)) = apiKey s \<and>
   tempApiKey (fst (evaluateAIIdea e s)) = tempApiKey s \<and>
   showApiKeyInput (fst (evaluateAIIdea e s)) = showApiKeyInput s \<and>
   isGenerating (fst (evaluateAIIdea e s)) = isGenerating s \<and>
   selectedCategory (fst (evaluateAIIdea e s)) = selectedCategory s"
proof (cases "currentIdea s")
  case None
  then show ?thesis by (simp add: evaluateAIIdea_def)
next
  case (Some idea)
  then show ?thesis
    by (cases e "evaluate_begin s" idea rule: evaluate_try_cases)
       (simp_all add: evaluateAIIdea_def evaluate_catch_def evaluate_begin_def)
qed

end
